theory Spec2Isabelle
  imports Complex_Main "HOL-Library.AList"
begin

section \<open>Numbers\<close>

text \<open>
  The server is JavaScript; every longitude, cusp and orb is a JavaScript number, an IEEE
  binary64 value.  A number is modelled by the real it denotes; NaN and the infinities are
  left out.  Comparisons, \<^verbatim>\<open>Math.abs\<close> and \<^verbatim>\<open>Math.floor\<close> are exact.  A
  subtraction, a sum or a quotient is not: it returns the double nearest to the exact
  result, ties going to the even mantissa.  \<open>fl64\<close> is that rounding; \<open>js_sub\<close>,
  \<open>js_add\<close> and \<open>js_div\<close> are the operations of the language on numbers in range.

  \<open>binade_down\<close> and \<open>binade_up\<close> find the power of two at or below a positive
  number, by halving or doubling; their fuel is the exponent range of the format, so a
  number below \<open>2^-1022\<close> gets the spacing of the subnormals.  A double has 53 bits:
  the spacing of the doubles in that binade is the power of two divided by \<open>2^52\<close>, and
  rounding takes the nearest multiple of the spacing.
\<close>

fun binade_down :: "nat \<Rightarrow> real \<Rightarrow> real" where
  "binade_down 0 x = 1"
| "binade_down (Suc n) x = (if 2 \<le> x then 2 * binade_down n (x / 2) else 1)"

fun binade_up :: "nat \<Rightarrow> real \<Rightarrow> real" where
  "binade_up 0 x = 1"
| "binade_up (Suc n) x = (if x < 1 then binade_up n (2 * x) / 2 else 1)"

definition ulp :: "real \<Rightarrow> real" where
  "ulp x = (if 1 \<le> x then binade_down 1023 x else binade_up 1022 x) / 2 ^ 52"

definition round_even :: "real \<Rightarrow> int" where
  "round_even q =
     (let f = \<lfloor>q\<rfloor>; d = q - of_int f
      in if d < 1 / 2 then f else if 1 / 2 < d then f + 1 else if even f then f else f + 1)"

definition fl64 :: "real \<Rightarrow> real" where
  "fl64 x =
     (if x = 0 then 0
      else if x < 0 then - (of_int (round_even (- x / ulp (- x))) * ulp (- x))
      else of_int (round_even (x / ulp x)) * ulp x)"

definition js_sub :: "real \<Rightarrow> real \<Rightarrow> real" where
  "js_sub a b = fl64 (a - b)"

definition js_add :: "real \<Rightarrow> real \<Rightarrow> real" where
  "js_add a b = fl64 (a + b)"

definition js_div :: "real \<Rightarrow> real \<Rightarrow> real" where
  "js_div a b = fl64 (a / b)"

text \<open>
  \<^verbatim>\<open>a % b\<close> is the truncated remainder (the sign follows the dividend), not the floored
  \<open>mod\<close> of HOL, so it is written out; it is exact on doubles.  The quotient under
  \<^verbatim>\<open>Math.floor\<close> in the sign classifier is taken exactly.
\<close>

definition js_trunc :: "real \<Rightarrow> int" where
  "js_trunc x = (if 0 \<le> x then \<lfloor>x\<rfloor> else \<lceil>x\<rceil>)"

definition js_rem :: "real \<Rightarrow> real \<Rightarrow> real" where
  "js_rem a b = a - b * of_int (js_trunc (a / b))"

section \<open>Sign and house classifier\<close>

text \<open>
  \<^verbatim>\<open>
  const getZodiacSign = (longitude) => {
    const signs = ["Aries", ..., "Pisces"];
    const signIndex = Math.floor(longitude / 30);
    const degreesInSign = longitude % 30;
    return { sign: signs[signIndex], degrees: degreesInSign };
  };
  \<close>
  Reading \<^verbatim>\<open>signs[signIndex]\<close> outside 0..11 gives \<^verbatim>\<open>undefined\<close>: the sign is an option.
\<close>

definition signs :: "string list" where
  "signs = [''Aries'', ''Taurus'', ''Gemini'', ''Cancer'', ''Leo'', ''Virgo'', ''Libra'',
            ''Scorpio'', ''Sagittarius'', ''Capricorn'', ''Aquarius'', ''Pisces'']"

definition js_index :: "'a list \<Rightarrow> int \<Rightarrow> 'a option" where
  "js_index xs i = (if 0 \<le> i \<and> i < int (length xs) then Some (xs ! nat i) else None)"

record sign_info =
  sign :: "string option"
  degrees :: real

definition getZodiacSign :: "real \<Rightarrow> sign_info" where
  "getZodiacSign longitude =
     (let signIndex = \<lfloor>longitude / 30\<rfloor>;
          degreesInSign = js_rem longitude 30
      in \<lparr>sign = js_index signs signIndex, degrees = degreesInSign\<rparr>)"

text \<open>
  \<^verbatim>\<open>
  const getHousePlacement = (longitude, houseCusps) => {
    if (!houseCusps || houseCusps.length < 12) return null;
    for (let i = 0; i < 12; i++) {
      const cusp1 = houseCusps[i];
      const cusp2 = houseCusps[(i + 1) % 12];
      if (cusp1 > cusp2) {
        if (longitude >= cusp1 || longitude < cusp2) return i + 1;
      } else {
        if (longitude >= cusp1 && longitude < cusp2) return i + 1;
      }
    }
    return null;
  };
  \<close>
  An absent cusp array is \<open>None\<close>.  \<open>in_house\<close> is the test of one round of the loop; the
  indices it reads are below 12, hence inside an array that passed the length check.
\<close>

definition in_house :: "real \<Rightarrow> real list \<Rightarrow> nat \<Rightarrow> bool" where
  "in_house longitude houseCusps i =
     (let cusp1 = houseCusps ! i;
          cusp2 = houseCusps ! ((i + 1) mod 12)
      in if cusp1 > cusp2 then longitude \<ge> cusp1 \<or> longitude < cusp2
         else longitude \<ge> cusp1 \<and> longitude < cusp2)"

function house_loop :: "real \<Rightarrow> real list \<Rightarrow> nat \<Rightarrow> nat option" where
  "house_loop longitude houseCusps i =
     (if i < 12
      then if in_house longitude houseCusps i then Some (i + 1)
           else house_loop longitude houseCusps (i + 1)
      else None)"
  by pat_completeness auto
termination
  by (relation "measure (\<lambda>(longitude, houseCusps, i). 12 - i)") auto

definition getHousePlacement :: "real \<Rightarrow> real list option \<Rightarrow> nat option" where
  "getHousePlacement longitude houseCusps =
     (case houseCusps of
        None \<Rightarrow> None
      | Some cusps \<Rightarrow> if length cusps < 12 then None else house_loop longitude cusps 0)"

section \<open>Chart documents\<close>

text \<open>
  Values that reach the server as JSON (the five chart inputs, a stored chart document) are
  JavaScript values.  An object is an association list in key order.
\<close>

datatype jsval =
    JUndefined
  | JNull
  | JBool bool
  | JNum real
  | JStr string
  | JArr "jsval list"
  | JObj "(string \<times> jsval) list"

record chart_inputs =
  year :: jsval
  month :: jsval
  day :: jsval
  time :: jsval
  location :: jsval

record chart_meta =
  meta_date :: string
  meta_location :: string
  meta_latitude :: real
  meta_longitude :: real
  inputs :: chart_inputs

text \<open>
  \<^verbatim>\<open>positionData.house\<close> is only assigned when houses are part of the chart; then it
  holds what \<open>getHousePlacement\<close> returned, a number or null.
\<close>

datatype house_field = NoHouse | House "nat option"

record position =
  longitude :: real
  latitude :: real
  speed :: real
  pos_sign :: "string option"
  sign_degrees :: real
  house :: house_field

record house_set =
  system :: string
  ascendant :: real
  mc :: real
  cusps :: "real list"

record aspect_entry =
  planet1 :: string
  planet2 :: string
  aspect :: string
  orb :: real
  color :: string

text \<open>
  \<^verbatim>\<open>chartData.positions\<close> is an object keyed by body name; \<^verbatim>\<open>Object.keys\<close> lists the
  names in insertion order, so it is an association list, assigned with \<open>AList.update\<close>
  (a new key goes to the end, an existing key keeps its place).
\<close>

record chartData =
  meta :: chart_meta
  positions :: "(string \<times> position) list"
  houses :: "house_set option"
  aspects :: "aspect_entry list"

section \<open>Aspect detector\<close>

text \<open>
  \<^verbatim>\<open>
  const aspectTypes = {
    conjunction: { angle: 0, orb: 8, color: "#4a4a4a" },
    opposition: { angle: 180, orb: 8, color: "#ff4d4d" },
    trine: { angle: 120, orb: 8, color: "#2b8a3e" },
    square: { angle: 90, orb: 8, color: "#e03131" },
    sextile: { angle: 60, orb: 6, color: "#1c7ed6" },
    quincunx: { angle: 150, orb: 3, color: "#f08c00" },
  };
  \<close>
  \<^verbatim>\<open>for (const aspectName in aspectTypes)\<close> visits the keys in the order they are written.
\<close>

record aspect_type =
  at_angle :: real
  at_orb :: real
  at_color :: string

definition aspectTypes :: "(string \<times> aspect_type) list" where
  "aspectTypes =
     [(''conjunction'', \<lparr>at_angle = 0, at_orb = 8, at_color = ''#4a4a4a''\<rparr>),
      (''opposition'', \<lparr>at_angle = 180, at_orb = 8, at_color = ''#ff4d4d''\<rparr>),
      (''trine'', \<lparr>at_angle = 120, at_orb = 8, at_color = ''#2b8a3e''\<rparr>),
      (''square'', \<lparr>at_angle = 90, at_orb = 8, at_color = ''#e03131''\<rparr>),
      (''sextile'', \<lparr>at_angle = 60, at_orb = 6, at_color = ''#1c7ed6''\<rparr>),
      (''quincunx'', \<lparr>at_angle = 150, at_orb = 3, at_color = ''#f08c00''\<rparr>)]"

text \<open>
  \<^verbatim>\<open>
  for (const aspectName in aspectTypes) {
    const aspect = aspectTypes[aspectName];
    if (Math.abs(angle - aspect.angle) <= aspect.orb) {
      chartData.aspects.push({ planet1: planetNames[i], planet2: planetNames[j],
        aspect: aspectName, orb: Math.abs(angle - aspect.angle), color: aspect.color });
      break;
    }
  }
  \<close>
  The function returns \<^verbatim>\<open>chartData.aspects\<close> after the loop.
\<close>

fun aspect_loop ::
  "string \<Rightarrow> string \<Rightarrow> real \<Rightarrow> (string \<times> aspect_type) list \<Rightarrow> aspect_entry list
   \<Rightarrow> aspect_entry list" where
  "aspect_loop name1 name2 angle [] acc = acc"
| "aspect_loop name1 name2 angle ((aspectName, aspectType) # rest) acc =
     (if \<bar>js_sub angle (at_angle aspectType)\<bar> \<le> at_orb aspectType
      then acc @ [\<lparr>planet1 = name1, planet2 = name2, aspect = aspectName,
                   orb = \<bar>js_sub angle (at_angle aspectType)\<bar>,
                   color = at_color aspectType\<rparr>]
      else aspect_loop name1 name2 angle rest acc)"

text \<open>
  \<^verbatim>\<open>
  const p1 = chartData.positions[planetNames[i]];
  const p2 = chartData.positions[planetNames[j]];
  if (!p1 || !p2) continue;
  let angle = Math.abs(p1.longitude - p2.longitude);
  if (angle > 180) angle = 360 - angle;
  \<close>
\<close>

definition pair_step ::
  "(string \<times> position) list \<Rightarrow> string list \<Rightarrow> nat \<Rightarrow> nat \<Rightarrow> aspect_entry list
   \<Rightarrow> aspect_entry list" where
  "pair_step ps planetNames i j acc =
     (case (map_of ps (planetNames ! i), map_of ps (planetNames ! j)) of
        (Some p1, Some p2) \<Rightarrow>
          (let angle0 = \<bar>js_sub (longitude p1) (longitude p2)\<bar>;
               angle = (if angle0 > 180 then js_sub 360 angle0 else angle0)
           in aspect_loop (planetNames ! i) (planetNames ! j) angle aspectTypes acc)
      | _ \<Rightarrow> acc)"

function inner_loop ::
  "(string \<times> position) list \<Rightarrow> string list \<Rightarrow> nat \<Rightarrow> nat \<Rightarrow> aspect_entry list
   \<Rightarrow> aspect_entry list" where
  "inner_loop ps planetNames i j acc =
     (if j < length planetNames
      then inner_loop ps planetNames i (j + 1) (pair_step ps planetNames i j acc)
      else acc)"
  by pat_completeness auto
termination
  by (relation "measure (\<lambda>(ps, planetNames, i, j, acc). length planetNames - j)") auto

function outer_loop ::
  "(string \<times> position) list \<Rightarrow> string list \<Rightarrow> nat \<Rightarrow> aspect_entry list
   \<Rightarrow> aspect_entry list" where
  "outer_loop ps planetNames i acc =
     (if i < length planetNames
      then outer_loop ps planetNames (i + 1) (inner_loop ps planetNames i (i + 1) acc)
      else acc)"
  by pat_completeness auto
termination
  by (relation "measure (\<lambda>(ps, planetNames, i, acc). length planetNames - i)") auto

definition calculate_aspects :: "(string \<times> position) list \<Rightarrow> aspect_entry list" where
  "calculate_aspects ps = outer_loop ps (map fst ps) 0 []"

text \<open>
  The aspect of one pair of longitudes, as the loop body finds it: what \<open>pair_step\<close>
  appends for two positions with these longitudes.
\<close>

definition detect :: "real \<Rightarrow> real \<Rightarrow> (string \<times> real) option" where
  "detect longitude1 longitude2 =
     (let angle0 = \<bar>js_sub longitude1 longitude2\<bar>;
          angle = (if angle0 > 180 then js_sub 360 angle0 else angle0)
      in case aspect_loop ''a'' ''b'' angle aspectTypes [] of
           [] \<Rightarrow> None
         | e # _ \<Rightarrow> Some (aspect e, orb e))"

section \<open>The outside world\<close>

text \<open>
  Geocoding and time-zone lookup (two HTTP requests), the date library, the Swiss Ephemeris
  binding, \<^verbatim>\<open>JSON.parse\<close> and the database are collaborators of the chart engine.  Each is a
  property of an environment record: what a call returns, or the exception it throws.
\<close>

datatype exn =
    Error string
  | TypeError string
  | SyntaxError string
  | RequestError string
  | SqlError string

fun message :: "exn \<Rightarrow> string" where
  "message (Error m) = m"
| "message (TypeError m) = m"
| "message (SyntaxError m) = m"
| "message (RequestError m) = m"
| "message (SqlError m) = m"

text \<open>The body numbers of the ephemeris library (\<^verbatim>\<open>sweph.SE_SUN\<close>, ...).\<close>

datatype body =
    SE_SUN | SE_MOON | SE_MERCURY | SE_VENUS | SE_MARS | SE_JUPITER | SE_SATURN
  | SE_URANUS | SE_NEPTUNE | SE_PLUTO | SE_TRUE_NODE | SE_CHIRON

text \<open>
  The binding answers either with an object that has an \<^verbatim>\<open>error\<close> message (which is what
  \<^verbatim>\<open>if (result.error)\<close> tests) or with the values: longitude, latitude and speed of a
  body; ascendant, midheaven and the array of cusps of a chart.
\<close>

datatype calc_result = CalcError string | CalcOk real real real

datatype houses_result = HousesError string | HousesOk real real "real list"

record geo_result =
  geo_lat :: real
  geo_lng :: real
  formatted_address :: string

record geo_data =
  geo_status :: string
  results :: "geo_result list"

record tz_data =
  tz_status :: string
  timeZoneId :: string

record luxon_dt =
  isValid :: bool
  invalidReason :: string
  dt_year :: int
  dt_month :: int
  dt_day :: int
  dt_hour :: int
  dt_minute :: int
  dt_second :: int

text \<open>A row of \<^verbatim>\<open>astro_event_data\<close>, and what the driver returns for the select.\<close>

record event =
  event_id :: jsval
  event_data :: jsval

datatype query_result =
    QueryFalsy
  | QueryArray "event list"
  | QueryObject event
  | QueryOther

record env =
  GEOCODING_API_KEY :: "string option"
  axios_get_geocode :: "jsval \<Rightarrow> exn + geo_data"
  iso_string :: "jsval \<Rightarrow> jsval \<Rightarrow> jsval \<Rightarrow> jsval \<Rightarrow> string"
  axios_get_timezone :: "real \<Rightarrow> real \<Rightarrow> string \<Rightarrow> exn + tz_data"
  fromISO_toUTC :: "string \<Rightarrow> string \<Rightarrow> luxon_dt"
  fromSQL :: "string \<Rightarrow> luxon_dt"
  toFormat :: "luxon_dt \<Rightarrow> string \<Rightarrow> string"
  swe_julday :: "int \<Rightarrow> int \<Rightarrow> int \<Rightarrow> real \<Rightarrow> real"
  swe_houses :: "real \<Rightarrow> real \<Rightarrow> real \<Rightarrow> string \<Rightarrow> houses_result"
  swe_calc_ut :: "real \<Rightarrow> body \<Rightarrow> calc_result"
  JSON_parse :: "string \<Rightarrow> exn + jsval"
  pool_getConnection :: "exn option"
  conn_query_select :: "exn + query_result"
  conn_query_update :: "jsval \<Rightarrow> chartData \<Rightarrow> exn option"

section \<open>Chart assembler\<close>

text \<open>
  Step 1 of \<^verbatim>\<open>calculateChart\<close>: geocoding and conversion of the local time to UTC.
  \<^verbatim>\<open>
  const geocodingApiKey = process.env.GEOCODING_API_KEY;
  if (!geocodingApiKey) throw new Error("GEOCODING_API_KEY not found on the server.");
  const geocodeResponse = await axios.get(geocodeUrl);
  const geoData = geocodeResponse.data;
  if (geoData.status !== "OK" || !geoData.results[0])
    throw new Error("Could not geocode the provided location.");
  const { lat, lng } = geoData.results[0].geometry.location;
  const formattedLocation = geoData.results[0].formatted_address;
  const isoString = `${year}-${String(month).padStart(2, "0")}-...T${time}`;
  const timezoneResponse = await axios.get(timezoneUrl);
  const tzData = timezoneResponse.data;
  if (tzData.status !== "OK")
    throw new Error("Could not determine the timezone for the location.");
  const utcTime = DateTime.fromISO(isoString, { zone: tzData.timeZoneId }).toUTC();
  if (!utcTime.isValid)
    throw new Error(`Invalid date or time provided: ${utcTime.invalidReason}`);
  \<close>
\<close>

record resolved =
  r_lat :: real
  r_lng :: real
  r_formattedLocation :: string
  r_utcTime :: luxon_dt

definition resolve_instant ::
  "env \<Rightarrow> jsval \<Rightarrow> jsval \<Rightarrow> jsval \<Rightarrow> jsval \<Rightarrow> jsval \<Rightarrow> exn + resolved" where
  "resolve_instant env year' month' day' time' location' =
     (case GEOCODING_API_KEY env of
        None \<Rightarrow> Inl (Error ''GEOCODING_API_KEY not found on the server.'')
      | Some geocodingApiKey \<Rightarrow>
          if geocodingApiKey = [] then Inl (Error ''GEOCODING_API_KEY not found on the server.'')
          else
            (case axios_get_geocode env location' of
               Inl e \<Rightarrow> Inl e
             | Inr geoData \<Rightarrow>
                 (case results geoData of
                    [] \<Rightarrow> Inl (Error ''Could not geocode the provided location.'')
                  | result0 # _ \<Rightarrow>
                      if geo_status geoData \<noteq> ''OK''
                      then Inl (Error ''Could not geocode the provided location.'')
                      else
                        (let lat = geo_lat result0;
                             lng = geo_lng result0;
                             formattedLocation = formatted_address result0;
                             isoString = iso_string env year' month' day' time'
                         in case axios_get_timezone env lat lng isoString of
                              Inl e \<Rightarrow> Inl e
                            | Inr tzData \<Rightarrow>
                                if tz_status tzData \<noteq> ''OK''
                                then Inl (Error
                                  ''Could not determine the timezone for the location.'')
                                else
                                  (let utcTime = fromISO_toUTC env isoString (timeZoneId tzData)
                                   in if \<not> isValid utcTime
                                      then Inl (Error (''Invalid date or time provided: '' @
                                                       invalidReason utcTime))
                                      else Inr \<lparr>r_lat = lat, r_lng = lng,
                                                r_formattedLocation = formattedLocation,
                                                r_utcTime = utcTime\<rparr>)))))"

text \<open>
  Step 3, the houses.
  \<^verbatim>\<open>
  if (includeHouses) {
    const housesResult = sweph.swe_houses(julianDayUT, lat, lng, houseSystem);
    if (housesResult.error) throw new Error(`House calculation failed: ${housesResult.error}`);
    chartData.houses = { system: houseSystem, ascendant: housesResult.asc,
      mc: housesResult.mc, cusps: housesResult.house.slice(0, 12) };
  }
  \<close>
\<close>

definition house_step ::
  "env \<Rightarrow> real \<Rightarrow> real \<Rightarrow> real \<Rightarrow> bool \<Rightarrow> string \<Rightarrow> chartData \<Rightarrow> exn + chartData" where
  "house_step env julianDayUT lat lng includeHouses houseSystem chartData =
     (if includeHouses
      then (case swe_houses env julianDayUT lat lng houseSystem of
              HousesError err \<Rightarrow> Inl (Error (''House calculation failed: '' @ err))
            | HousesOk asc midheaven house_cusps \<Rightarrow>
                Inr (chartData\<lparr>houses := Some \<lparr>system = houseSystem, ascendant = asc,
                                                mc = midheaven, cusps = take 12 house_cusps\<rparr>\<rparr>))
      else Inr chartData)"

text \<open>
  Step 4, the bodies.
  \<^verbatim>\<open>
  for (const [name, id] of Object.entries(planets)) {
    const result = sweph.swe_calc_ut(julianDayUT, id, sweph.SEFLG_SPEED | sweph.SEFLG_JPLEPH);
    if (result.error) { console.warn(...); continue; }
    const signInfo = getZodiacSign(result.longitude);
    const positionData = { longitude: result.longitude, latitude: result.latitude,
      speed: result.speed, sign: signInfo.sign, sign_degrees: signInfo.degrees };
    if (includeHouses && chartData.houses) {
      positionData.house = getHousePlacement(result.longitude, chartData.houses.cusps);
    }
    chartData.positions[name] = positionData;
  }
  \<close>
\<close>

definition planets :: "(string \<times> body) list" where
  "planets =
     [(''Sun'', SE_SUN), (''Moon'', SE_MOON), (''Mercury'', SE_MERCURY), (''Venus'', SE_VENUS),
      (''Mars'', SE_MARS), (''Jupiter'', SE_JUPITER), (''Saturn'', SE_SATURN),
      (''Uranus'', SE_URANUS), (''Neptune'', SE_NEPTUNE), (''Pluto'', SE_PLUTO),
      (''North Node'', SE_TRUE_NODE), (''Chiron'', SE_CHIRON)]"

definition positionData_of :: "bool \<Rightarrow> house_set option \<Rightarrow> real \<Rightarrow> real \<Rightarrow> real \<Rightarrow> position" where
  "positionData_of includeHouses chart_houses lon lat spd =
     (let signInfo = getZodiacSign lon;
          positionData = \<lparr>longitude = lon, latitude = lat, speed = spd,
                          pos_sign = sign signInfo, sign_degrees = degrees signInfo,
                          house = NoHouse\<rparr>
      in case chart_houses of
           Some hs \<Rightarrow>
             if includeHouses
             then positionData\<lparr>house := House (getHousePlacement lon (Some (cusps hs)))\<rparr>
             else positionData
         | None \<Rightarrow> positionData)"

fun planets_loop ::
  "env \<Rightarrow> real \<Rightarrow> bool \<Rightarrow> (string \<times> body) list \<Rightarrow> chartData \<Rightarrow> chartData" where
  "planets_loop env julianDayUT includeHouses [] chartData = chartData"
| "planets_loop env julianDayUT includeHouses ((name, body_id) # rest) chartData =
     (case swe_calc_ut env julianDayUT body_id of
        CalcError err \<Rightarrow> planets_loop env julianDayUT includeHouses rest chartData
      | CalcOk lon lat spd \<Rightarrow>
          planets_loop env julianDayUT includeHouses rest
            (chartData\<lparr>positions :=
               AList.update name (positionData_of includeHouses (houses chartData) lon lat spd)
                 (positions chartData)\<rparr>))"

text \<open>
  The whole function.  \<^verbatim>\<open>includeHouses = true\<close> and \<^verbatim>\<open>houseSystem = "P"\<close> are default
  parameters: an argument that is not passed is \<open>None\<close> here.  The five inputs carry a prime,
  their names being the property names of \<open>chart_inputs\<close>.
  \<^verbatim>\<open>
  const julianDayUT = sweph.swe_julday(utcTime.year, utcTime.month, utcTime.day,
    utcTime.hour + utcTime.minute / 60 + utcTime.second / 3600, sweph.SE_GREG_CAL);
  const chartData = {
    meta: { date: utcTime.toFormat("yyyy-MM-dd HH:mm:ss 'UTC'"), location: formattedLocation,
      latitude: lat, longitude: lng, inputs: { year, month, day, time, location } },
    positions: {}, houses: null, aspects: [] };
  \<close>
\<close>

definition julian_day :: "env \<Rightarrow> luxon_dt \<Rightarrow> real" where
  "julian_day env utcTime =
     swe_julday env (dt_year utcTime) (dt_month utcTime) (dt_day utcTime)
       (js_add (js_add (of_int (dt_hour utcTime)) (js_div (of_int (dt_minute utcTime)) 60))
          (js_div (of_int (dt_second utcTime)) 3600))"

definition new_chartData :: "env \<Rightarrow> resolved \<Rightarrow> chart_inputs \<Rightarrow> chartData" where
  "new_chartData env r inputs' =
     \<lparr>meta = \<lparr>meta_date = toFormat env (r_utcTime r)
                              (''yyyy-MM-dd HH:mm:ss 'UTC'' @ [CHR 0x27]),
               meta_location = r_formattedLocation r,
               meta_latitude = r_lat r,
               meta_longitude = r_lng r,
               inputs = inputs'\<rparr>,
      positions = [], houses = None, aspects = []\<rparr>"

text \<open>Steps 2 to 5: the chart of a resolved instant.\<close>

definition assemble_chart ::
  "env \<Rightarrow> resolved \<Rightarrow> chart_inputs \<Rightarrow> bool \<Rightarrow> string \<Rightarrow> exn + chartData" where
  "assemble_chart env r inputs' includeHouses houseSystem =
     (let julianDayUT = julian_day env (r_utcTime r)
      in case house_step env julianDayUT (r_lat r) (r_lng r) includeHouses houseSystem
                (new_chartData env r inputs') of
           Inl e \<Rightarrow> Inl e
         | Inr chartData1 \<Rightarrow>
             (let chartData2 = planets_loop env julianDayUT includeHouses planets chartData1
              in Inr (chartData2\<lparr>aspects :=
                        aspects chartData2 @ calculate_aspects (positions chartData2)\<rparr>)))"

definition calculateChart ::
  "env \<Rightarrow> jsval \<Rightarrow> jsval \<Rightarrow> jsval \<Rightarrow> jsval \<Rightarrow> jsval \<Rightarrow> bool option \<Rightarrow> string option
   \<Rightarrow> exn + chartData" where
  "calculateChart env year' month' day' time' location' includeHouses_arg houseSystem_arg =
     (let includeHouses = (case includeHouses_arg of None \<Rightarrow> True | Some b \<Rightarrow> b);
          houseSystem = (case houseSystem_arg of None \<Rightarrow> ''P'' | Some hsys \<Rightarrow> hsys)
      in case resolve_instant env year' month' day' time' location' of
           Inl e \<Rightarrow> Inl e
         | Inr r \<Rightarrow>
             assemble_chart env r
               \<lparr>year = year', month = month', day = day', time = time', location = location'\<rparr>
               includeHouses houseSystem)"

section \<open>Recalculation job\<close>

subsection \<open>JavaScript values\<close>

text \<open>
  Truthiness, as \<^verbatim>\<open>!x\<close> and \<^verbatim>\<open>&&\<close> test it, and reading a property.  Reading a
  property of \<^verbatim>\<open>undefined\<close> or \<^verbatim>\<open>null\<close> throws a TypeError; a value that is not an
  object has none of the properties the job asks for (\<^verbatim>\<open>meta\<close>, \<^verbatim>\<open>inputs\<close>,
  \<^verbatim>\<open>date\<close>, \<^verbatim>\<open>location\<close>, \<^verbatim>\<open>year\<close>, \<^verbatim>\<open>month\<close>, \<^verbatim>\<open>day\<close>, \<^verbatim>\<open>time\<close>).
\<close>

fun truthy :: "jsval \<Rightarrow> bool" where
  "truthy JUndefined = False"
| "truthy JNull = False"
| "truthy (JBool b) = b"
| "truthy (JNum x) = (x \<noteq> 0)"
| "truthy (JStr str) = (str \<noteq> [])"
| "truthy (JArr xs) = True"
| "truthy (JObj kvs) = True"

fun property :: "jsval \<Rightarrow> string \<Rightarrow> jsval" where
  "property (JObj kvs) key = (case map_of kvs key of Some v \<Rightarrow> v | None \<Rightarrow> JUndefined)"
| "property v key = JUndefined"

fun get_prop :: "jsval \<Rightarrow> string \<Rightarrow> exn + jsval" where
  "get_prop JUndefined key =
     Inl (TypeError (''Cannot read properties of undefined (reading '' @ [CHR 0x27] @ key @
                     [CHR 0x27] @ '')''))"
| "get_prop JNull key =
     Inl (TypeError (''Cannot read properties of null (reading '' @ [CHR 0x27] @ key @
                     [CHR 0x27] @ '')''))"
| "get_prop v key = Inr (property v key)"

text \<open>
  \<^verbatim>\<open>str.replace(pattern, replacement)\<close> with a string pattern replaces the first occurrence.
  \<^verbatim>\<open>data.meta.date.replace(" UTC", "")\<close> on a value that is not a string throws a
  TypeError (there is no such method to call).
\<close>

fun js_replace :: "string \<Rightarrow> string \<Rightarrow> string \<Rightarrow> string" where
  "js_replace [] pat rep = (if pat = [] then rep else [])"
| "js_replace (c # cs) pat rep =
     (if take (length pat) (c # cs) = pat then rep @ drop (length pat) (c # cs)
      else c # js_replace cs pat rep)"

fun date_replace :: "jsval \<Rightarrow> exn + string" where
  "date_replace (JStr str) = Inr (js_replace str '' UTC'' [])"
| "date_replace v = Inl (TypeError ''data.meta.date.replace is not a function'')"

subsection \<open>What the job does to the world\<close>

text \<open>
  The job writes to the console, issues update statements and releases its database
  connection.  A computation takes the state and returns the new state with either a value
  or the exception that was thrown; \<open>try_catch\<close> and \<open>try_finally\<close> are the two
  statements of the language.
\<close>

datatype log_entry =
    LogStart
  | LogNoCharts
  | LogFound nat
  | LogOldFormat jsval
  | LogReconstructed jsval jsval
  | WarnSkipping jsval
  | LogRecalculating jsval
  | LogSuccess jsval
  | ErrFailed jsval string
  | LogFinished
  | ErrCritical string

record job_state =
  console :: "log_entry list"
  db_updates :: "(jsval \<times> chartData) list"
  conn :: bool
  released :: nat

type_synonym 'a job = "job_state \<Rightarrow> (exn + 'a) \<times> job_state"

definition ret :: "'a \<Rightarrow> 'a job" where
  "ret x = (\<lambda>s. (Inr x, s))"

definition lift :: "exn + 'a \<Rightarrow> 'a job" where
  "lift r = (\<lambda>s. (r, s))"

definition bnd :: "'a job \<Rightarrow> ('a \<Rightarrow> 'b job) \<Rightarrow> 'b job" where
  "bnd m f = (\<lambda>s. case m s of (Inl e, s') \<Rightarrow> (Inl e, s') | (Inr x, s') \<Rightarrow> f x s')"

definition try_catch :: "'a job \<Rightarrow> (exn \<Rightarrow> 'a job) \<Rightarrow> 'a job" where
  "try_catch m handler = (\<lambda>s. case m s of (Inl e, s') \<Rightarrow> handler e s' | (Inr x, s') \<Rightarrow> (Inr x, s'))"

definition try_finally :: "'a job \<Rightarrow> unit job \<Rightarrow> 'a job" where
  "try_finally m finalizer =
     (\<lambda>s. case m s of
             (r, s') \<Rightarrow> (case finalizer s' of (Inl e, s'') \<Rightarrow> (Inl e, s'') | (Inr u, s'') \<Rightarrow> (r, s'')))"

definition console_out :: "log_entry \<Rightarrow> unit job" where
  "console_out entry = (\<lambda>s. (Inr (), s\<lparr>console := console s @ [entry]\<rparr>))"

definition getConnection :: "env \<Rightarrow> unit job" where
  "getConnection env =
     (\<lambda>s. case pool_getConnection env of
             Some e \<Rightarrow> (Inl e, s)
           | None \<Rightarrow> (Inr (), s\<lparr>conn := True\<rparr>))"

definition release_if_conn :: "unit job" where
  "release_if_conn = (\<lambda>s. (Inr (), if conn s then s\<lparr>released := released s + 1\<rparr> else s))"

definition query_update :: "env \<Rightarrow> jsval \<Rightarrow> chartData \<Rightarrow> unit job" where
  "query_update env eventId doc =
     (\<lambda>s. case conn_query_update env eventId doc of
             Some e \<Rightarrow> (Inl e, s)
           | None \<Rightarrow> (Inr (), s\<lparr>db_updates := db_updates s @ [(eventId, doc)]\<rparr>))"

subsection \<open>One record\<close>

text \<open>
  \<^verbatim>\<open>
  let inputs;
  if (data.meta && data.meta.inputs) {
    inputs = data.meta.inputs;
  } else if (data.meta && data.meta.date && data.meta.location) {
    console.log(`Event ID ${eventId} is old format, reconstructing inputs...`);
    const dateString = data.meta.date.replace(" UTC", "");
    const utcDate = DateTime.fromSQL(dateString, { zone: "utc" });
    if (utcDate.isValid) {
      inputs = { year: utcDate.year, month: utcDate.month, day: utcDate.day,
        time: utcDate.toFormat("HH:mm:ss"), location: data.meta.location };
      console.log(`---> Reconstructed for Event ${eventId}:`, inputs);
    }
  }
  \<close>
\<close>

definition reconstructed :: "env \<Rightarrow> luxon_dt \<Rightarrow> jsval \<Rightarrow> jsval" where
  "reconstructed env utcDate meta_location' =
     JObj [(''year'', JNum (of_int (dt_year utcDate))),
           (''month'', JNum (of_int (dt_month utcDate))),
           (''day'', JNum (of_int (dt_day utcDate))),
           (''time'', JStr (toFormat env utcDate ''HH:mm:ss'')),
           (''location'', meta_location')]"

definition recover_inputs :: "env \<Rightarrow> jsval \<Rightarrow> jsval \<Rightarrow> jsval job" where
  "recover_inputs env eventId data =
     bnd (lift (get_prop data ''meta'')) (\<lambda>data_meta.
       if truthy data_meta \<and> truthy (property data_meta ''inputs'')
       then ret (property data_meta ''inputs'')
       else if truthy data_meta \<and> truthy (property data_meta ''date'')
               \<and> truthy (property data_meta ''location'')
       then bnd (console_out (LogOldFormat eventId)) (\<lambda>_.
            bnd (lift (date_replace (property data_meta ''date''))) (\<lambda>dateString.
              let utcDate = fromSQL env dateString
              in if isValid utcDate
                 then (let inputs' = reconstructed env utcDate (property data_meta ''location'')
                       in bnd (console_out (LogReconstructed eventId inputs')) (\<lambda>_. ret inputs'))
                 else ret JUndefined))
       else ret JUndefined)"

text \<open>
  \<^verbatim>\<open>
  if (!inputs || !inputs.year || !inputs.month || !inputs.day || !inputs.time
      || !inputs.location) {
    console.warn(`Skipping event ID ${eventId}: Missing or invalid input data ...`);
    continue;
  }
  console.log(`Recalculating chart for event ID: ${eventId}...`);
  const recalculatedChartData = await calculateChart(inputs.year, inputs.month, inputs.day,
    inputs.time, inputs.location);
  await conn.query("UPDATE astro_event_data SET event_data = ? WHERE event_id = ?",
    [JSON.stringify(recalculatedChartData), eventId]);
  console.log(`Successfully recalculated chart for event ID: ${eventId}`);
  \<close>
\<close>

definition inputs_missing :: "jsval \<Rightarrow> bool" where
  "inputs_missing inputs' =
     (\<not> truthy inputs' \<or> \<not> truthy (property inputs' ''year'') \<or> \<not> truthy (property inputs' ''month'')
      \<or> \<not> truthy (property inputs' ''day'') \<or> \<not> truthy (property inputs' ''time'')
      \<or> \<not> truthy (property inputs' ''location''))"

definition recalc_with_inputs :: "env \<Rightarrow> jsval \<Rightarrow> jsval \<Rightarrow> unit job" where
  "recalc_with_inputs env eventId inputs' =
     (if inputs_missing inputs' then console_out (WarnSkipping eventId)
      else bnd (console_out (LogRecalculating eventId)) (\<lambda>_.
           bnd (lift (calculateChart env (property inputs' ''year'') (property inputs' ''month'')
                        (property inputs' ''day'') (property inputs' ''time'')
                        (property inputs' ''location'') None None)) (\<lambda>recalculatedChartData.
           bnd (query_update env eventId recalculatedChartData) (\<lambda>_.
           console_out (LogSuccess eventId)))))"

text \<open>
  \<^verbatim>\<open>
  const eventId = event.event_id;
  let data;
  if (typeof event.event_data === "string") data = JSON.parse(event.event_data);
  else data = event.event_data;
  \<close>
\<close>

definition parse_event_data :: "env \<Rightarrow> event \<Rightarrow> exn + jsval" where
  "parse_event_data env ev =
     (case event_data ev of JStr str \<Rightarrow> JSON_parse env str | data \<Rightarrow> Inr data)"

definition event_body :: "env \<Rightarrow> event \<Rightarrow> unit job" where
  "event_body env ev =
     (let eventId = event_id ev
      in bnd (lift (parse_event_data env ev)) (\<lambda>data.
         bnd (recover_inputs env eventId data) (\<lambda>inputs'.
         recalc_with_inputs env eventId inputs')))"

text \<open>
  \<^verbatim>\<open>
  for (const event of events) {
    try { ... } catch (recalcError) {
      console.error(`Failed to recalculate chart for event ID ${event.event_id}:`,
        recalcError.message);
    }
  }
  \<close>
\<close>

definition guarded_event :: "env \<Rightarrow> event \<Rightarrow> unit job" where
  "guarded_event env ev =
     try_catch (event_body env ev)
       (\<lambda>recalcError. console_out (ErrFailed (event_id ev) (message recalcError)))"

fun for_events :: "env \<Rightarrow> event list \<Rightarrow> unit job" where
  "for_events env [] = ret ()"
| "for_events env (ev # rest) = bnd (guarded_event env ev) (\<lambda>_. for_events env rest)"

subsection \<open>The job\<close>

text \<open>
  \<^verbatim>\<open>
  async function recalculateAllChartsOnStartup() {
    console.log("Starting recalculation of all saved astro charts...");
    let conn;
    try {
      conn = await pool.getConnection();
      const queryResult = await conn.query("SELECT event_id, event_data FROM astro_event_data");
      let events = [];
      if (queryResult) {
        if (Array.isArray(queryResult)) events = queryResult;
        else if (typeof queryResult === "object" && queryResult !== null) events = [queryResult];
      }
      if (events.length === 0) {
        console.log("No saved charts to recalculate. Startup complete.");
        if (conn) conn.release();
        return;
      }
      console.log(`Found ${events.length} charts to process.`);
      for (const event of events) { ... }
      console.log("Chart recalculation process finished successfully.");
    } catch (err) {
      console.error("A critical error occurred ...", err.message);
    } finally {
      if (conn) conn.release();
    }
  }
  \<close>
\<close>

fun events_of :: "query_result \<Rightarrow> event list" where
  "events_of QueryFalsy = []"
| "events_of (QueryArray rows) = rows"
| "events_of (QueryObject row) = [row]"
| "events_of QueryOther = []"

definition recalculateAllChartsOnStartup :: "env \<Rightarrow> unit job" where
  "recalculateAllChartsOnStartup env =
     bnd (console_out LogStart) (\<lambda>_.
     try_finally
       (try_catch
          (bnd (getConnection env) (\<lambda>_.
           bnd (lift (conn_query_select env)) (\<lambda>queryResult.
             let events = events_of queryResult
             in if length events = 0
                then bnd (console_out LogNoCharts) (\<lambda>_. release_if_conn)
                else bnd (console_out (LogFound (length events))) (\<lambda>_.
                     bnd (for_events env events) (\<lambda>_.
                     console_out LogFinished)))))
          (\<lambda>err. console_out (ErrCritical (message err))))
       release_if_conn)"

definition initial_state :: job_state where
  "initial_state = \<lparr>console = [], db_updates = [], conn = False, released = 0\<rparr>"

section \<open>Vocabulary of the specification\<close>

text \<open>
  The arc of house \<open>i\<close> (counted from 1) as the specification words it: from
  \<open>cusps[i-1]\<close> to \<open>cusps[i mod 12]\<close>, crossing 0 when the first is the larger.
\<close>

definition house_arc :: "real \<Rightarrow> real list \<Rightarrow> nat \<Rightarrow> bool" where
  "house_arc L cusps' i =
     (if cusps' ! (i - 1) > cusps' ! (i mod 12)
      then L \<ge> cusps' ! (i - 1) \<or> L < cusps' ! (i mod 12)
      else cusps' ! (i - 1) \<le> L \<and> L < cusps' ! (i mod 12))"

text \<open>
  Twelve cusps are circularly ordered when, read from one of them onwards and around, they
  increase strictly.
\<close>

definition circularly_ordered :: "real list \<Rightarrow> bool" where
  "circularly_ordered cusps' =
     (length cusps' = 12 \<and> (\<exists>k \<in> set [0..<12]. sorted_wrt (<) (rotate k cusps')))"

text \<open>
  The separation of two longitudes and the walk through the catalog, as the specification
  words them: the kinds in their fixed order, each with its angle and its orb.  Each
  difference is the one the program computes, a subtraction of doubles.
\<close>

definition separation :: "real \<Rightarrow> real \<Rightarrow> real" where
  "separation longitude1 longitude2 =
     (let sep = \<bar>js_sub longitude1 longitude2\<bar> in if sep > 180 then js_sub 360 sep else sep)"

definition first_kind :: "real \<Rightarrow> (string \<times> real) option" where
  "first_kind sep =
     (if \<bar>js_sub sep 0\<bar> \<le> 8 then Some (''conjunction'', \<bar>js_sub sep 0\<bar>)
      else if \<bar>js_sub sep 180\<bar> \<le> 8 then Some (''opposition'', \<bar>js_sub sep 180\<bar>)
      else if \<bar>js_sub sep 120\<bar> \<le> 8 then Some (''trine'', \<bar>js_sub sep 120\<bar>)
      else if \<bar>js_sub sep 90\<bar> \<le> 8 then Some (''square'', \<bar>js_sub sep 90\<bar>)
      else if \<bar>js_sub sep 60\<bar> \<le> 6 then Some (''sextile'', \<bar>js_sub sep 60\<bar>)
      else if \<bar>js_sub sep 150\<bar> \<le> 3 then Some (''quincunx'', \<bar>js_sub sep 150\<bar>)
      else None)"

text \<open>The unordered pairs of \<open>n\<close> bodies, by index, in the order the loops visit them.\<close>

definition pair_indices :: "nat \<Rightarrow> (nat \<times> nat) list" where
  "pair_indices n = concat (map (\<lambda>i. map (\<lambda>j. (i, j)) [i + 1..<n]) [0..<n])"

fun pair_entry ::
  "(string \<times> position) list \<Rightarrow> nat \<times> nat \<Rightarrow> (string \<times> string \<times> string \<times> real) list" where
  "pair_entry ps (i, j) =
     (case first_kind (separation (longitude (snd (ps ! i))) (longitude (snd (ps ! j)))) of
        None \<Rightarrow> []
      | Some (kind, deviation) \<Rightarrow> [(fst (ps ! i), fst (ps ! j), kind, deviation)])"

definition entry_tuple :: "aspect_entry \<Rightarrow> string \<times> string \<times> string \<times> real" where
  "entry_tuple e = (planet1 e, planet2 e, aspect e, orb e)"

text \<open>What the ephemeris reported for a body, and the five inputs read off a stored object.\<close>

fun calc_ok :: "calc_result \<Rightarrow> bool" where
  "calc_ok (CalcOk lon lat spd) = True"
| "calc_ok (CalcError err) = False"

definition inputs_of :: "jsval \<Rightarrow> chart_inputs" where
  "inputs_of inputs' =
     \<lparr>year = property inputs' ''year'', month = property inputs' ''month'',
      day = property inputs' ''day'', time = property inputs' ''time'',
      location = property inputs' ''location''\<rparr>"

section \<open>Sample data\<close>

definition example_cusps :: "real list" where
  "example_cusps = [300, 330, 0, 30, 60, 90, 120, 150, 180, 210, 240, 270]"

text \<open>
  A world for the examples: noon of 1 January 2000 at Greenwich, an ephemeris that knows
  three bodies and reports an error for the rest, and a table of four stored charts: a
  legacy document without \<open>inputs\<close>, a string that is not JSON, a document with its
  inputs, and an empty object.
\<close>

definition demo_dt :: luxon_dt where
  "demo_dt = \<lparr>isValid = True, invalidReason = [], dt_year = 2000, dt_month = 1, dt_day = 1,
              dt_hour = 12, dt_minute = 0, dt_second = 0\<rparr>"

fun demo_calc :: "real \<Rightarrow> body \<Rightarrow> calc_result" where
  "demo_calc jd SE_SUN = CalcOk (561 / 2) 0 1"
| "demo_calc jd SE_MOON = CalcOk (201 / 2) 5 13"
| "demo_calc jd SE_MARS = CalcOk 10 1 (1 / 2)"
| "demo_calc jd b = CalcError ''ephemeris file not found''"

definition legacy_doc :: jsval where
  "legacy_doc =
     JObj [(''meta'', JObj [(''date'', JStr ''2000-01-01 12:00:00 UTC''),
                            (''location'', JStr ''Greenwich, London, UK'')]),
           (''positions'', JObj []),
           (''houses'', JNull),
           (''aspects'', JArr [])]"

definition current_doc :: jsval where
  "current_doc =
     JObj [(''meta'', JObj [(''date'', JStr ''2000-01-01 12:00:00 UTC''),
                            (''location'', JStr ''Greenwich, London, UK''),
                            (''inputs'', JObj [(''year'', JNum 2000), (''month'', JNum 1),
                                               (''day'', JNum 1), (''time'', JStr ''12:00''),
                                               (''location'', JStr ''Greenwich, UK'')])])]"

definition demo_events :: "event list" where
  "demo_events =
     [\<lparr>event_id = JNum 1, event_data = legacy_doc\<rparr>,
      \<lparr>event_id = JNum 2, event_data = JStr ''{not json''\<rparr>,
      \<lparr>event_id = JNum 3, event_data = current_doc\<rparr>,
      \<lparr>event_id = JNum 4, event_data = JObj []\<rparr>]"

definition demo_env :: env where
  "demo_env =
     \<lparr>GEOCODING_API_KEY = Some ''key'',
      axios_get_geocode = (\<lambda>place. Inr \<lparr>geo_status = ''OK'',
         results = [\<lparr>geo_lat = 5148 / 100, geo_lng = 0,
                     formatted_address = ''Greenwich, London, UK''\<rparr>]\<rparr>),
      iso_string = (\<lambda>y m d t. ''2000-01-01T12:00''),
      axios_get_timezone = (\<lambda>lat lng iso. Inr \<lparr>tz_status = ''OK'',
         timeZoneId = ''Europe/London''\<rparr>),
      fromISO_toUTC = (\<lambda>iso zone. demo_dt),
      fromSQL = (\<lambda>str. if str = ''2000-01-01 12:00:00'' then demo_dt
                         else demo_dt\<lparr>isValid := False\<rparr>),
      toFormat = (\<lambda>dt fmt. if fmt = ''HH:mm:ss'' then ''12:00:00''
                            else ''2000-01-01 12:00:00 UTC''),
      swe_julday = (\<lambda>y m d h. 2451545),
      swe_houses = (\<lambda>jd lat lng hsys. HousesOk 300 210 example_cusps),
      swe_calc_ut = demo_calc,
      JSON_parse = (\<lambda>str. Inl (SyntaxError ''Unexpected token n in JSON'')),
      pool_getConnection = None,
      conn_query_select = Inr (QueryArray demo_events),
      conn_query_update = (\<lambda>eventId doc. None)\<rparr>"

text \<open>The same world at a latitude where the house system has no solution.\<close>

definition polar_env :: env where
  "polar_env = demo_env\<lparr>swe_houses :=
     (\<lambda>jd lat lng hsys. HousesError ''no houses at this latitude'')\<rparr>"

definition demo_positions :: "(string \<times> position) list" where
  "demo_positions =
     [(''Sun'', positionData_of False None (561 / 2) 0 1),
      (''Moon'', positionData_of False None (201 / 2) 5 13),
      (''Mars'', positionData_of False None 10 1 (1 / 2))]"

text \<open>
  Two tables where the rounding of the subtraction shows.  In the first the Moon is at the
  largest double below 8: the exact separation from 16 is above 8 by \<open>2^-50\<close>, the
  subtraction of doubles gives 8.  In the second the bodies are at the doubles written
  \<^verbatim>\<open>100.1\<close> and \<^verbatim>\<open>10.3\<close>.
\<close>

definition edge_positions :: "(string \<times> position) list" where
  "edge_positions =
     [(''Sun'', positionData_of False None 16 0 1),
      (''Moon'', positionData_of False None (8 - 1 / 2 ^ 50) 0 13)]"

definition decimal_positions :: "(string \<times> position) list" where
  "decimal_positions =
     [(''Sun'', positionData_of False None (3521955646092083 / 35184372088832) 0 1),
      (''Moon'', positionData_of False None (2899192260119757 / 281474976710656) 0 13)]"

definition demo_inputs :: chart_inputs where
  "demo_inputs = \<lparr>year = JNum 2000, month = JNum 1, day = JNum 1, time = JStr ''12:00'',
                  location = JStr ''Greenwich, UK''\<rparr>"

section \<open>Properties of the classifier\<close>

subsection \<open>The house loop\<close>

lemma house_loop_Some:
  "house_loop L cs i = Some h \<longleftrightarrow>
     i < h \<and> h \<le> 12 \<and> in_house L cs (h - 1) \<and> (\<forall>k. i \<le> k \<and> k < h - 1 \<longrightarrow> \<not> in_house L cs k)"
proof (induction L cs i rule: house_loop.induct)
  case (1 L cs i)
  show ?case
  proof (cases "i < 12")
    case False
    then show ?thesis by (subst house_loop.simps) auto
  next
    case lt: True
    show ?thesis
    proof (cases "in_house L cs i")
      case True
      have "house_loop L cs i = Some (i + 1)"
        using lt True by (subst house_loop.simps) simp
      moreover have "(i < h \<and> h \<le> 12 \<and> in_house L cs (h - 1) \<and>
          (\<forall>k. i \<le> k \<and> k < h - 1 \<longrightarrow> \<not> in_house L cs k)) \<longleftrightarrow> h = i + 1"
      proof
        assume a: "i < h \<and> h \<le> 12 \<and> in_house L cs (h - 1) \<and>
          (\<forall>k. i \<le> k \<and> k < h - 1 \<longrightarrow> \<not> in_house L cs k)"
        show "h = i + 1"
        proof (rule ccontr)
          assume "h \<noteq> i + 1"
          with a have "i \<le> i \<and> i < h - 1" by arith
          with a True show False by blast
        qed
      next
        assume "h = i + 1"
        with lt True show "i < h \<and> h \<le> 12 \<and> in_house L cs (h - 1) \<and>
          (\<forall>k. i \<le> k \<and> k < h - 1 \<longrightarrow> \<not> in_house L cs k)" by auto
      qed
      ultimately show ?thesis by auto
    next
      case False
      have eq: "house_loop L cs i = house_loop L cs (i + 1)"
        using lt False by (subst house_loop.simps) simp
      have ih: "house_loop L cs (i + 1) = Some h \<longleftrightarrow>
         i + 1 < h \<and> h \<le> 12 \<and> in_house L cs (h - 1) \<and>
         (\<forall>k. i + 1 \<le> k \<and> k < h - 1 \<longrightarrow> \<not> in_house L cs k)"
        using "1.IH" lt False by simp
      have "(i + 1 < h \<and> h \<le> 12 \<and> in_house L cs (h - 1) \<and>
         (\<forall>k. i + 1 \<le> k \<and> k < h - 1 \<longrightarrow> \<not> in_house L cs k)) \<longleftrightarrow>
         (i < h \<and> h \<le> 12 \<and> in_house L cs (h - 1) \<and>
         (\<forall>k. i \<le> k \<and> k < h - 1 \<longrightarrow> \<not> in_house L cs k))" (is "?A \<longleftrightarrow> ?B")
      proof
        assume a: ?A
        have "\<not> in_house L cs k" if "i \<le> k \<and> k < h - 1" for k
        proof (cases "k = i")
          case True then show ?thesis using False by simp
        next
          case False with that a show ?thesis by (metis Suc_eq_plus1 Suc_leI le_neq_implies_less)
        qed
        with a show ?B by auto
      next
        assume b: ?B
        have "h - 1 \<noteq> i" using b False by auto
        with b show ?A by auto
      qed
      with eq ih show ?thesis by simp
    qed
  qed
qed

lemma house_loop_None:
  "house_loop L cs i = None \<longleftrightarrow> (\<forall>k. i \<le> k \<and> k < 12 \<longrightarrow> \<not> in_house L cs k)"
proof (induction L cs i rule: house_loop.induct)
  case (1 L cs i)
  show ?case
  proof (cases "i < 12")
    case False
    then show ?thesis by (subst house_loop.simps) auto
  next
    case lt: True
    show ?thesis
    proof (cases "in_house L cs i")
      case True
      then show ?thesis using lt by (subst house_loop.simps) auto
    next
      case False
      have eq: "house_loop L cs i = house_loop L cs (i + 1)"
        using lt False by (subst house_loop.simps) simp
      have ih: "house_loop L cs (i + 1) = None \<longleftrightarrow>
         (\<forall>k. i + 1 \<le> k \<and> k < 12 \<longrightarrow> \<not> in_house L cs k)"
        using "1.IH" lt False by simp
      have "(\<forall>k. i + 1 \<le> k \<and> k < 12 \<longrightarrow> \<not> in_house L cs k) \<longleftrightarrow>
            (\<forall>k. i \<le> k \<and> k < 12 \<longrightarrow> \<not> in_house L cs k)"
        using False by (metis Suc_eq_plus1 Suc_leI le_neq_implies_less add_leD1)
      with eq ih show ?thesis by simp
    qed
  qed
qed



lemma in_house_arc: "1 \<le> h \<Longrightarrow> in_house L cs (h - 1) = house_arc L cs h"
  by (simp add: in_house_def house_arc_def Let_def)

lemma getHousePlacement_arc:
  "(getHousePlacement L houseCusps = Some h \<longleftrightarrow>
      (\<exists>cs. houseCusps = Some cs \<and> 12 \<le> length cs \<and> 1 \<le> h \<and> h \<le> 12 \<and> house_arc L cs h
            \<and> (\<forall>k. 1 \<le> k \<and> k < h \<longrightarrow> \<not> house_arc L cs k)))
   \<and> (getHousePlacement L houseCusps = None \<longleftrightarrow>
        houseCusps = None \<or> (\<exists>cs. houseCusps = Some cs \<and>
          (length cs < 12 \<or> (\<forall>k. 1 \<le> k \<and> k \<le> 12 \<longrightarrow> \<not> house_arc L cs k))))"
proof (cases houseCusps)
  case None
  then show ?thesis by (simp add: getHousePlacement_def)
next
  case (Some cs)
  show ?thesis
  proof (cases "length cs < 12")
    case True
    then show ?thesis using Some by (simp add: getHousePlacement_def)
  next
    case False
    have eq: "getHousePlacement L houseCusps = house_loop L cs 0"
      using Some False by (simp add: getHousePlacement_def)
    have a: "(\<forall>k. 0 \<le> k \<and> k < h - 1 \<longrightarrow> \<not> in_house L cs k) \<longleftrightarrow>
             (\<forall>k. 1 \<le> k \<and> k < h \<longrightarrow> \<not> house_arc L cs k)"
    proof
      assume l: "\<forall>k. 0 \<le> k \<and> k < h - 1 \<longrightarrow> \<not> in_house L cs k"
      show "\<forall>k. 1 \<le> k \<and> k < h \<longrightarrow> \<not> house_arc L cs k"
      proof (intro allI impI)
        fix k assume k: "1 \<le> k \<and> k < h"
        then have "\<not> in_house L cs (k - 1)" using l by (simp add: less_diff_conv2)
        with k show "\<not> house_arc L cs k" using in_house_arc [of k L cs] by simp
      qed
    next
      assume r: "\<forall>k. 1 \<le> k \<and> k < h \<longrightarrow> \<not> house_arc L cs k"
      show "\<forall>k. 0 \<le> k \<and> k < h - 1 \<longrightarrow> \<not> in_house L cs k"
      proof (intro allI impI)
        fix k assume k: "0 \<le> k \<and> k < h - 1"
        then have "\<not> house_arc L cs (k + 1)" using r by (simp add: less_diff_conv)
        then show "\<not> in_house L cs k" using in_house_arc [of "k + 1" L cs] by simp
      qed
    qed
    have b: "(\<forall>k. 0 \<le> k \<and> k < 12 \<longrightarrow> \<not> in_house L cs k) \<longleftrightarrow>
             (\<forall>k. 1 \<le> k \<and> k \<le> 12 \<longrightarrow> \<not> house_arc L cs k)"
    proof
      assume l: "\<forall>k. 0 \<le> k \<and> k < 12 \<longrightarrow> \<not> in_house L cs k"
      show "\<forall>k. 1 \<le> k \<and> k \<le> 12 \<longrightarrow> \<not> house_arc L cs k"
      proof (intro allI impI)
        fix k :: nat assume k: "1 \<le> k \<and> k \<le> 12"
        then have "\<not> in_house L cs (k - 1)" using l by auto
        with k show "\<not> house_arc L cs k" using in_house_arc [of k L cs] by simp
      qed
    next
      assume r: "\<forall>k. 1 \<le> k \<and> k \<le> 12 \<longrightarrow> \<not> house_arc L cs k"
      show "\<forall>k. 0 \<le> k \<and> k < 12 \<longrightarrow> \<not> in_house L cs k"
      proof (intro allI impI)
        fix k :: nat assume k: "0 \<le> k \<and> k < 12"
        then have "\<not> house_arc L cs (k + 1)" using r by auto
        then show "\<not> in_house L cs k" using in_house_arc [of "k + 1" L cs] by simp
      qed
    qed
    have s: "house_loop L cs 0 = Some h \<longleftrightarrow>
        1 \<le> h \<and> h \<le> 12 \<and> house_arc L cs h \<and> (\<forall>k. 1 \<le> k \<and> k < h \<longrightarrow> \<not> house_arc L cs k)"
      using house_loop_Some [of L cs 0 h] a in_house_arc [of h L cs] by auto
    have n: "house_loop L cs 0 = None \<longleftrightarrow> (\<forall>k. 1 \<le> k \<and> k \<le> 12 \<longrightarrow> \<not> house_arc L cs k)"
      using house_loop_None [of L cs 0] b by simp
    show ?thesis using eq s n Some False by auto
  qed
qed

lemma strict_chain_locate:
  fixes s :: "nat \<Rightarrow> real"
  assumes step: "\<And>j. j < n \<Longrightarrow> s j < s (j + 1)"
  shows "s 0 \<le> L \<Longrightarrow> L < s n \<Longrightarrow> \<exists>j<n. s j \<le> L \<and> L < s (j + 1)"
  using step
proof (induction n)
  case 0
  then show ?case by simp
next
  case (Suc n)
  show ?case
  proof (cases "L < s n")
    case True
    then obtain j where "j < n" "s j \<le> L \<and> L < s (j + 1)"
      using Suc by (metis less_Suc_eq)
    then show ?thesis by (metis less_Suc_eq)
  next
    case False
    then show ?thesis using Suc.prems by (metis Suc_eq_plus1 lessI not_less)
  qed
qed

lemma rotated_sorted_arcs:
  assumes len: "length cs = 12" and k: "k < 12" and srt: "sorted_wrt (<) (rotate k cs)"
  shows "\<exists>!i. i < 12 \<and> in_house L cs i"
    and "i < 12 \<Longrightarrow> in_house (cs ! i) cs i"
proof -
  define s where "s j = cs ! ((k + j) mod 12)" for j
  have s_rot: "s j = rotate k cs ! j" if "j < 12" for j
    using that len by (simp add: s_def nth_rotate)
  have mono: "s i < s j" if "i < j" "j < 12" for i j
    using srt that len s_rot [of i] s_rot [of j] by (simp add: sorted_wrt_iff_nth_less)
  have mono_le: "s i \<le> s j" if "i \<le> j" "j < 12" for i j
    using mono [of i j] that by (cases "i = j") auto
  have nxt: "((k + j) mod 12 + 1) mod 12 = (k + (j + 1)) mod 12" for j
    using mod_add_left_eq [of "k + j" 12 1] by (simp add: add.assoc)
  have key_lt: "in_house L' cs ((k + j) mod 12) \<longleftrightarrow> s j \<le> L' \<and> L' < s (j + 1)"
    if "j < 11" for j L'
  proof -
    have "s j < s (j + 1)" using mono [of j "j + 1"] that by simp
    then show ?thesis
      unfolding in_house_def Let_def nxt s_def [symmetric] by auto
  qed
  have s12: "cs ! ((k + (11 + 1)) mod 12) = s 0"
    by (simp add: s_def)
  have key_11: "in_house L' cs ((k + 11) mod 12) \<longleftrightarrow> L' \<ge> s 11 \<or> L' < s 0" for L'
  proof -
    have "s 0 < s 11" using mono [of 0 11] by simp
    then show ?thesis
      unfolding in_house_def Let_def nxt s12 unfolding s_def [symmetric] by auto
  qed
  have preimg: "\<exists>j<12. i = (k + j) mod 12" if "i < 12" for i
  proof -
    have "(i + 12 - k) mod 12 < 12" by simp
    moreover have "i = (k + (i + 12 - k) mod 12) mod 12"
    proof -
      have "(k + (i + 12 - k) mod 12) mod 12 = (k + (i + 12 - k)) mod 12"
        by (rule mod_add_right_eq)
      also have "k + (i + 12 - k) = i + 12" using k by simp
      also have "(i + 12) mod 12 = i" using that by simp
      finally show ?thesis by simp
    qed
    ultimately show ?thesis by blast
  qed
  have ex: "\<exists>j<12. in_house L cs ((k + j) mod 12)"
  proof (cases "L \<ge> s 11 \<or> L < s 0")
    case True
    then have "in_house L cs ((k + 11) mod 12)" using key_11 [of L] by simp
    then show ?thesis by (intro exI [of _ 11]) simp
  next
    case False
    then have "s 0 \<le> L" "L < s 11" by auto
    moreover have "\<And>j. j < 11 \<Longrightarrow> s j < s (j + 1)"
      using mono by simp
    ultimately obtain j where j: "j < 11" "s j \<le> L \<and> L < s (j + 1)"
      using strict_chain_locate [of 11 s L] by blast
    then have "in_house L cs ((k + j) mod 12)" using key_lt by simp
    with j show ?thesis by (intro exI [of _ j]) simp
  qed
  have uniq_aux: False
    if "j < j'" "j' < 12" "in_house L cs ((k + j) mod 12)" "in_house L cs ((k + j') mod 12)"
    for j j'
  proof -
    have j11: "j < 11" using that by simp
    then have a: "s j \<le> L" "L < s (j + 1)" using key_lt that by auto
    show False
    proof (cases "j' = 11")
      case True
      then have "L \<ge> s 11 \<or> L < s 0" using key_11 that by simp
      moreover have "s (j + 1) \<le> s 11" using mono_le [of "j + 1" 11] j11 by simp
      moreover have "s 0 \<le> s j" using mono_le [of 0 j] j11 by simp
      ultimately show False using a by linarith
    next
      case False
      then have "j' < 11" using that by simp
      then have b: "s j' \<le> L" using key_lt that by auto
      have "s (j + 1) \<le> s j'" using mono_le [of "j + 1" j'] that by simp
      with a b show False by linarith
    qed
  qed
  have uniq: "j = j'"
    if "j < 12" "j' < 12" "in_house L cs ((k + j) mod 12)" "in_house L cs ((k + j') mod 12)"
    for j j'
    using uniq_aux [of j j'] uniq_aux [of j' j] that by (cases j j' rule: linorder_cases) auto
  show "\<exists>!i. i < 12 \<and> in_house L cs i"
  proof -
    from ex obtain j where j: "j < 12" "in_house L cs ((k + j) mod 12)" by blast
    show ?thesis
    proof (rule ex1I [of _ "(k + j) mod 12"])
      show "(k + j) mod 12 < 12 \<and> in_house L cs ((k + j) mod 12)" using j by simp
    next
      fix i assume i: "i < 12 \<and> in_house L cs i"
      then obtain j' where j': "j' < 12" "i = (k + j') mod 12" using preimg by blast
      then have "j' = j" using uniq [of j' j] i j by simp
      with j' show "i = (k + j) mod 12" by simp
    qed
  qed
  show "in_house (cs ! i) cs i" if "i < 12"
  proof -
    from that obtain j where j: "j < 12" "i = (k + j) mod 12" using preimg by blast
    have sj: "cs ! i = s j" using j by (simp add: s_def)
    show ?thesis
    proof (cases "j = 11")
      case True
      then show ?thesis using key_11 [of "s 11"] j sj by simp
    next
      case False
      then have j11: "j < 11" using j by simp
      then have "s j < s (j + 1)" using mono [of j "j + 1"] by simp
      then show ?thesis using key_lt [of j "s j"] j11 j sj by simp
    qed
  qed
qed

lemma circular_placement:
  assumes len: "length cs = 12" and k: "k < 12" and srt: "sorted_wrt (<) (rotate k cs)"
  shows "\<exists>h. 1 \<le> h \<and> h \<le> 12 \<and> getHousePlacement L' (Some cs) = Some h
              \<and> (\<forall>h'. 1 \<le> h' \<and> h' \<le> 12 \<and> house_arc L' cs h' \<longrightarrow> h' = h)"
proof -
  from rotated_sorted_arcs(1) [OF len k srt, of L']
  obtain i where i: "i < 12" "in_house L' cs i"
    and u: "\<And>i'. i' < 12 \<and> in_house L' cs i' \<Longrightarrow> i' = i" by (elim ex1E) blast
  have arc: "house_arc L' cs (i + 1)" using i(2) in_house_arc [of "i + 1" L' cs] by simp
  have only: "h' = i + 1" if "1 \<le> h' \<and> h' \<le> 12 \<and> house_arc L' cs h'" for h'
  proof -
    have "in_house L' cs (h' - 1)" using that in_house_arc [of h' L' cs] by simp
    moreover have "h' - 1 < 12" using that by arith
    ultimately have "h' - 1 = i" using u [of "h' - 1"] by simp
    with that show ?thesis by arith
  qed
  have nb: "\<forall>k'. 1 \<le> k' \<and> k' < i + 1 \<longrightarrow> \<not> house_arc L' cs k'"
  proof (intro allI impI notI)
    fix k' assume k': "1 \<le> k' \<and> k' < i + 1" and "house_arc L' cs k'"
    then have "1 \<le> k' \<and> k' \<le> 12 \<and> house_arc L' cs k'" using i(1) by simp
    then have "k' = i + 1" by (rule only)
    with k' show False by simp
  qed
  have bounds: "1 \<le> i + 1 \<and> i + 1 \<le> 12" using i(1) by simp
  have "12 \<le> length cs" using len by simp
  with arc nb bounds have "\<exists>cs'. Some cs = Some cs' \<and> 12 \<le> length cs' \<and> 1 \<le> i + 1 \<and> i + 1 \<le> 12
        \<and> house_arc L' cs' (i + 1) \<and> (\<forall>k. 1 \<le> k \<and> k < i + 1 \<longrightarrow> \<not> house_arc L' cs' k)"
    by (intro exI [of _ cs] conjI) (rule refl, assumption, simp, simp, assumption, assumption)
  then have gp: "getHousePlacement L' (Some cs) = Some (i + 1)"
    by (rule getHousePlacement_arc [THEN conjunct1, THEN iffD2])
  have all: "\<forall>h'. 1 \<le> h' \<and> h' \<le> 12 \<and> house_arc L' cs h' \<longrightarrow> h' = i + 1"
    using only by blast
  show ?thesis
    by (rule exI [of _ "i + 1"]) (intro conjI gp all bounds [THEN conjunct1] bounds [THEN conjunct2])
qed

subsection \<open>The sign table\<close>

lemma zodiac_index_range:
  assumes "0 \<le> L" "L < 360"
  shows "0 \<le> \<lfloor>L / 30\<rfloor> \<and> \<lfloor>L / 30\<rfloor> < 12"
proof -
  have "0 \<le> L / 30" using assms by simp
  then have "0 \<le> \<lfloor>L / 30\<rfloor>" by simp
  moreover have "L / 30 < 12" using assms by simp
  then have "\<lfloor>L / 30\<rfloor> < 12" by (simp add: floor_less_iff)
  ultimately show ?thesis by simp
qed

lemma zodiac_in_range:
  assumes "0 \<le> L" "L < 360"
  shows "getZodiacSign L =
           \<lparr>sign = Some (signs ! nat \<lfloor>L / 30\<rfloor>), degrees = L - 30 * of_int \<lfloor>L / 30\<rfloor>\<rparr>"
proof -
  have r: "0 \<le> \<lfloor>L / 30\<rfloor> \<and> \<lfloor>L / 30\<rfloor> < 12" using assms by (rule zodiac_index_range)
  have "length signs = 12" by (simp add: signs_def)
  then have "js_index signs \<lfloor>L / 30\<rfloor> = Some (signs ! nat \<lfloor>L / 30\<rfloor>)"
    using r by (simp add: js_index_def)
  moreover have "js_rem L 30 = L - 30 * of_int \<lfloor>L / 30\<rfloor>"
    using assms by (simp add: js_rem_def js_trunc_def)
  ultimately show ?thesis by (simp add: getZodiacSign_def Let_def)
qed

lemma zodiac_degrees_range:
  fixes L :: real
  shows "0 \<le> L - 30 * of_int \<lfloor>L / 30\<rfloor> \<and> L - 30 * of_int \<lfloor>L / 30\<rfloor> < 30"
proof -
  have "real_of_int \<lfloor>L / 30\<rfloor> \<le> L / 30" by (rule of_int_floor_le)
  moreover have "L / 30 < real_of_int \<lfloor>L / 30\<rfloor> + 1" by linarith
  ultimately show ?thesis by linarith
qed

lemma zodiac_shifted:
  assumes "0 \<le> L" "L < 360" "k \<noteq> 0"
  shows "sign (getZodiacSign (L + 360 * of_int k)) = None"
proof -
  have fl: "\<lfloor>(L + 360 * of_int k) / 30\<rfloor> = \<lfloor>L / 30\<rfloor> + 12 * k"
  proof -
    have "(L + 360 * of_int k) / 30 = L / 30 + of_int (12 * k)" by simp
    then show ?thesis by (simp only: floor_add_int)
  qed
  have r: "0 \<le> \<lfloor>L / 30\<rfloor> \<and> \<lfloor>L / 30\<rfloor> < 12" using assms by (intro zodiac_index_range)
  have "\<lfloor>L / 30\<rfloor> + 12 * k < 0 \<or> 12 \<le> \<lfloor>L / 30\<rfloor> + 12 * k"
    using r assms(3) by arith
  then show ?thesis
    by (auto simp add: getZodiacSign_def Let_def fl js_index_def signs_def)
qed

section \<open>Properties of the aspect detector\<close>

lemma aspect_loop_first_kind:
  "map entry_tuple (aspect_loop n1 n2 sep aspectTypes acc) =
     map entry_tuple acc @
       (case first_kind sep of None \<Rightarrow> [] | Some (kind, deviation) \<Rightarrow> [(n1, n2, kind, deviation)])"
proof -
  consider (conjunction) "\<bar>js_sub sep 0\<bar> \<le> 8"
    | (opposition) "\<not> \<bar>js_sub sep 0\<bar> \<le> 8" "\<bar>js_sub sep 180\<bar> \<le> 8"
    | (trine) "\<not> \<bar>js_sub sep 0\<bar> \<le> 8" "\<not> \<bar>js_sub sep 180\<bar> \<le> 8" "\<bar>js_sub sep 120\<bar> \<le> 8"
    | (square) "\<not> \<bar>js_sub sep 0\<bar> \<le> 8" "\<not> \<bar>js_sub sep 180\<bar> \<le> 8" "\<not> \<bar>js_sub sep 120\<bar> \<le> 8"
        "\<bar>js_sub sep 90\<bar> \<le> 8"
    | (sextile) "\<not> \<bar>js_sub sep 0\<bar> \<le> 8" "\<not> \<bar>js_sub sep 180\<bar> \<le> 8" "\<not> \<bar>js_sub sep 120\<bar> \<le> 8"
        "\<not> \<bar>js_sub sep 90\<bar> \<le> 8" "\<bar>js_sub sep 60\<bar> \<le> 6"
    | (quincunx) "\<not> \<bar>js_sub sep 0\<bar> \<le> 8" "\<not> \<bar>js_sub sep 180\<bar> \<le> 8" "\<not> \<bar>js_sub sep 120\<bar> \<le> 8"
        "\<not> \<bar>js_sub sep 90\<bar> \<le> 8" "\<not> \<bar>js_sub sep 60\<bar> \<le> 6" "\<bar>js_sub sep 150\<bar> \<le> 3"
    | (none) "\<not> \<bar>js_sub sep 0\<bar> \<le> 8" "\<not> \<bar>js_sub sep 180\<bar> \<le> 8" "\<not> \<bar>js_sub sep 120\<bar> \<le> 8"
        "\<not> \<bar>js_sub sep 90\<bar> \<le> 8" "\<not> \<bar>js_sub sep 60\<bar> \<le> 6" "\<not> \<bar>js_sub sep 150\<bar> \<le> 3"
    by blast
  then show ?thesis
  proof cases
    case conjunction
    then show ?thesis
      by (simp add: aspectTypes_def first_kind_def entry_tuple_def split del: if_split)
  next
    case opposition
    then show ?thesis
      by (simp add: aspectTypes_def first_kind_def entry_tuple_def split del: if_split)
  next
    case trine
    then show ?thesis
      by (simp add: aspectTypes_def first_kind_def entry_tuple_def split del: if_split)
  next
    case square
    then show ?thesis
      by (simp add: aspectTypes_def first_kind_def entry_tuple_def split del: if_split)
  next
    case sextile
    then show ?thesis
      by (simp add: aspectTypes_def first_kind_def entry_tuple_def split del: if_split)
  next
    case quincunx
    then show ?thesis
      by (simp add: aspectTypes_def first_kind_def entry_tuple_def split del: if_split)
  next
    case none
    then show ?thesis
      by (simp add: aspectTypes_def first_kind_def entry_tuple_def split del: if_split)
  qed
qed

lemma map_of_nth_distinct:
  "distinct (map fst ps) \<Longrightarrow> i < length ps \<Longrightarrow> map_of ps (map fst ps ! i) = Some (snd (ps ! i))"
  by (metis map_of_eq_Some_iff nth_map nth_mem prod.collapse)

lemma pair_step_entry:
  assumes "distinct (map fst ps)" "i < length ps" "j < length ps"
  shows "map entry_tuple (pair_step ps (map fst ps) i j acc) =
           map entry_tuple acc @ pair_entry ps (i, j)"
proof -
  have a: "map_of ps (map fst ps ! i) = Some (snd (ps ! i))"
    using assms by (simp only: map_of_nth_distinct)
  have b: "map_of ps (map fst ps ! j) = Some (snd (ps ! j))"
    using assms by (simp only: map_of_nth_distinct)
  show ?thesis
    unfolding pair_step_def a b
    using assms(2,3)
    by (simp add: Let_def aspect_loop_first_kind separation_def)
qed

lemma inner_loop_entries:
  assumes "distinct (map fst ps)" "i < length ps"
  shows "map entry_tuple (inner_loop ps (map fst ps) i j acc) =
           map entry_tuple acc @ concat (map (\<lambda>j. pair_entry ps (i, j)) [j..<length ps])"
  using assms
proof (induction ps "map fst ps" i j acc rule: inner_loop.induct)
  case (1 ps i j acc)
  show ?case
  proof (cases "j < length ps")
    case True
    have "inner_loop ps (map fst ps) i j acc =
            inner_loop ps (map fst ps) i (j + 1) (pair_step ps (map fst ps) i j acc)"
      using True by (subst inner_loop.simps) simp
    moreover have "map entry_tuple
        (inner_loop ps (map fst ps) i (j + 1) (pair_step ps (map fst ps) i j acc)) =
        map entry_tuple (pair_step ps (map fst ps) i j acc) @
          concat (map (\<lambda>j. pair_entry ps (i, j)) [j + 1..<length ps])"
      using "1.hyps" True "1.prems" by simp
    moreover have "[j..<length ps] = j # [j + 1..<length ps]"
      using True by (simp add: upt_conv_Cons)
    ultimately show ?thesis
      using pair_step_entry [OF "1.prems"(1) "1.prems"(2) True, of acc] by simp
  next
    case False
    then show ?thesis by (subst inner_loop.simps) simp
  qed
qed

lemma outer_loop_entries:
  assumes "distinct (map fst ps)"
  shows "map entry_tuple (outer_loop ps (map fst ps) i acc) =
           map entry_tuple acc @
             concat (map (\<lambda>i. concat (map (\<lambda>j. pair_entry ps (i, j)) [i + 1..<length ps]))
                       [i..<length ps])"
  using assms
proof (induction ps "map fst ps" i acc rule: outer_loop.induct)
  case (1 ps i acc)
  show ?case
  proof (cases "i < length ps")
    case True
    have "outer_loop ps (map fst ps) i acc =
            outer_loop ps (map fst ps) (i + 1) (inner_loop ps (map fst ps) i (i + 1) acc)"
      using True by (subst outer_loop.simps) simp
    moreover have "map entry_tuple
        (outer_loop ps (map fst ps) (i + 1) (inner_loop ps (map fst ps) i (i + 1) acc)) =
        map entry_tuple (inner_loop ps (map fst ps) i (i + 1) acc) @
          concat (map (\<lambda>i. concat (map (\<lambda>j. pair_entry ps (i, j)) [i + 1..<length ps]))
                    [i + 1..<length ps])"
      using "1.hyps" True "1.prems" by simp
    moreover have "[i..<length ps] = i # [i + 1..<length ps]"
      using True by (simp add: upt_conv_Cons)
    ultimately show ?thesis
      using inner_loop_entries [OF "1.prems" True, of "i + 1" acc] by simp
  next
    case False
    then show ?thesis by (subst outer_loop.simps) simp
  qed
qed

lemma concat_map_concat_map:
  "concat (map f (concat (map g xs))) = concat (map (\<lambda>x. concat (map f (g x))) xs)"
  by (induction xs) simp_all

lemma concat_pairs:
  "concat (map f (pair_indices n)) =
     concat (map (\<lambda>i. concat (map (\<lambda>j. f (i, j)) [i + 1..<n])) [0..<n])"
  by (simp add: pair_indices_def concat_map_concat_map comp_def)

lemma aspects_first_match:
  assumes "distinct (map fst ps)"
  shows "map entry_tuple (calculate_aspects ps) = concat (map (pair_entry ps) (pair_indices (length ps)))"
  using outer_loop_entries [OF assms, of 0 "[]"]
  by (simp add: calculate_aspects_def concat_pairs)

lemma detect_first_kind: "detect l1 l2 = first_kind (separation l1 l2)"
proof -
  have "map entry_tuple (aspect_loop ''a'' ''b'' (separation l1 l2) aspectTypes []) =
          (case first_kind (separation l1 l2) of
             None \<Rightarrow> [] | Some (kind, deviation) \<Rightarrow> [(''a'', ''b'', kind, deviation)])"
    using aspect_loop_first_kind [of "''a''" "''b''" "separation l1 l2" "[]"] by simp
  then show ?thesis
    by (cases "aspect_loop ''a'' ''b'' (separation l1 l2) aspectTypes []")
       (auto simp add: detect_def separation_def Let_def entry_tuple_def split: option.splits)
qed

lemma fl64_minus: "fl64 (- x) = - fl64 x"
  by (simp add: fl64_def)

lemma js_sub_abs: "\<bar>js_sub a b\<bar> = \<bar>js_sub b a\<bar>"
proof -
  have "js_sub a b = fl64 (- (b - a))" by (simp add: js_sub_def)
  also have "\<dots> = - js_sub b a" by (simp only: fl64_minus js_sub_def)
  finally show ?thesis by simp
qed

lemma detect_sym: "detect l1 l2 = detect l2 l1"
  by (simp only: detect_def js_sub_abs [of l1 l2])

section \<open>Properties of the chart assembler\<close>

lemma planets_loop_frame:
  "houses (planets_loop env jd ih pl cd) = houses cd
   \<and> meta (planets_loop env jd ih pl cd) = meta cd
   \<and> aspects (planets_loop env jd ih pl cd) = aspects cd"
  by (induction pl arbitrary: cd) (auto split: calc_result.splits)

lemma planets_loop_keys:
  "distinct (map fst pl) \<Longrightarrow> set (map fst pl) \<inter> set (map fst (positions cd)) = {} \<Longrightarrow>
   map fst (positions (planets_loop env jd ih pl cd)) =
     map fst (positions cd) @ map fst (filter (\<lambda>(name, b). calc_ok (swe_calc_ut env jd b)) pl)"
proof (induction pl arbitrary: cd)
  case Nil
  then show ?case by simp
next
  case (Cons nb pl)
  obtain name b where nb: "nb = (name, b)" by (cases nb)
  show ?case
  proof (cases "swe_calc_ut env jd b")
    case (CalcError err)
    then show ?thesis using Cons nb by simp
  next
    case (CalcOk lon lat spd)
    let ?cd = "cd\<lparr>positions := AList.update name (positionData_of ih (houses cd) lon lat spd)
                 (positions cd)\<rparr>"
    have k: "map fst (positions ?cd) = map fst (positions cd) @ [name]"
      using Cons.prems nb by (simp add: update_keys)
    have "distinct (map fst pl)" using Cons.prems by simp
    moreover have "set (map fst pl) \<inter> set (map fst (positions ?cd)) = {}"
      using Cons.prems nb k by auto
    ultimately have "map fst (positions (planets_loop env jd ih pl ?cd)) =
        map fst (positions ?cd) @ map fst (filter (\<lambda>(name, b). calc_ok (swe_calc_ut env jd b)) pl)"
      by (rule Cons.IH)
    then show ?thesis using CalcOk nb k by simp
  qed
qed

lemma update_member:
  "(n, p) \<in> set (AList.update k v al) \<Longrightarrow> (n, p) \<in> set al \<or> (n, p) = (k, v)"
  by (induction al) (auto split: if_splits)

lemma planets_loop_member:
  "(n, p) \<in> set (positions (planets_loop env jd ih pl cd)) \<Longrightarrow>
   (n, p) \<in> set (positions cd)
   \<or> (\<exists>b lon lat spd. (n, b) \<in> set pl \<and> swe_calc_ut env jd b = CalcOk lon lat spd
        \<and> p = positionData_of ih (houses cd) lon lat spd)"
proof (induction pl arbitrary: cd)
  case Nil
  then show ?case by simp
next
  case (Cons nb pl)
  obtain name b where nb: "nb = (name, b)" by (cases nb)
  show ?case
  proof (cases "swe_calc_ut env jd b")
    case (CalcError err)
    then have "(n, p) \<in> set (positions (planets_loop env jd ih pl cd))"
      using Cons.prems nb by simp
    from Cons.IH [OF this] show ?thesis by auto
  next
    case (CalcOk lon lat spd)
    let ?cd = "cd\<lparr>positions := AList.update name (positionData_of ih (houses cd) lon lat spd)
                 (positions cd)\<rparr>"
    have "(n, p) \<in> set (positions (planets_loop env jd ih pl ?cd))"
      using Cons.prems nb CalcOk by simp
    from Cons.IH [OF this] have
      "(n, p) \<in> set (positions ?cd)
       \<or> (\<exists>b lon lat spd. (n, b) \<in> set pl \<and> swe_calc_ut env jd b = CalcOk lon lat spd
            \<and> p = positionData_of ih (houses cd) lon lat spd)" by simp
    then show ?thesis
    proof
      assume "(n, p) \<in> set (positions ?cd)"
      then have "(n, p) \<in> set (positions cd)
                 \<or> (n, p) = (name, positionData_of ih (houses cd) lon lat spd)"
        using update_member [of n p name _ "positions cd"] by simp
      then show ?thesis using CalcOk nb by auto
    next
      assume "\<exists>b lon lat spd. (n, b) \<in> set pl \<and> swe_calc_ut env jd b = CalcOk lon lat spd
            \<and> p = positionData_of ih (houses cd) lon lat spd"
      then show ?thesis by auto
    qed
  qed
qed

lemma planets_loop_value:
  "distinct (map fst pl) \<Longrightarrow> (n, b) \<in> set pl \<Longrightarrow> swe_calc_ut env jd b = CalcOk lon lat spd \<Longrightarrow>
   map_of (positions (planets_loop env jd ih pl cd)) n =
     Some (positionData_of ih (houses cd) lon lat spd)"
proof (induction pl arbitrary: cd)
  case Nil
  then show ?case by simp
next
  case (Cons nb' pl)
  obtain name b' where nb: "nb' = (name, b')" by (cases nb')
  have keep: "map_of (positions (planets_loop env jd ih pl cd')) k = map_of (positions cd') k"
    if "k \<notin> fst ` set pl" for k cd'
    using that
  proof (induction pl arbitrary: cd')
    case Nil
    then show ?case by simp
  next
    case (Cons x xs)
    then show ?case
      by (cases x) (auto split: calc_result.splits simp add: update_conv')
  qed
  show ?case
  proof (cases "n = name")
    case True
    then have "b = b'" and notin: "name \<notin> fst ` set pl"
      using Cons.prems nb by (auto simp add: rev_image_eqI)
    then show ?thesis using Cons.prems nb True keep [OF notin]
      by (simp add: update_conv')
  next
    case False
    then have "(n, b) \<in> set pl" using Cons.prems nb by auto
    moreover have "distinct (map fst pl)" using Cons.prems by simp
    ultimately show ?thesis using Cons.IH Cons.prems(3) nb
      by (cases "swe_calc_ut env jd b'") simp_all
  qed
qed

lemma planets_distinct: "distinct (map fst planets)"
  by (simp add: planets_def)

lemma house_step_frame:
  "house_step env jd lat lng ih hsys cd = Inr cd1 \<Longrightarrow>
   meta cd1 = meta cd \<and> positions cd1 = positions cd \<and> aspects cd1 = aspects cd
   \<and> (ih \<longrightarrow> (\<exists>asc midheaven cs. swe_houses env jd lat lng hsys = HousesOk asc midheaven cs
              \<and> houses cd1 = Some \<lparr>system = hsys, ascendant = asc, mc = midheaven,
                                     cusps = take 12 cs\<rparr>))
   \<and> (\<not> ih \<longrightarrow> houses cd1 = houses cd)"
  by (auto simp add: house_step_def split: if_splits houses_result.splits)


lemma assemble_chart_success:
  assumes "assemble_chart env r ins ih hsys = Inr doc"
  shows "meta doc = meta (new_chartData env r ins)"
    and "map fst (positions doc) =
           map fst (filter (\<lambda>(name, b). calc_ok (swe_calc_ut env (julian_day env (r_utcTime r)) b))
                      planets)"
    and "aspects doc = calculate_aspects (positions doc)"
    and "ih \<Longrightarrow> \<exists>asc midheaven cs.
           swe_houses env (julian_day env (r_utcTime r)) (r_lat r) (r_lng r) hsys =
             HousesOk asc midheaven cs
           \<and> houses doc = Some \<lparr>system = hsys, ascendant = asc, mc = midheaven,
                                  cusps = take 12 cs\<rparr>"
    and "\<not> ih \<Longrightarrow> houses doc = None"
    and "(n, p) \<in> set (positions doc) \<Longrightarrow>
           \<exists>b lon lat spd. (n, b) \<in> set planets
             \<and> swe_calc_ut env (julian_day env (r_utcTime r)) b = CalcOk lon lat spd
             \<and> p = positionData_of ih (houses doc) lon lat spd"
    and "(n, b) \<in> set planets \<Longrightarrow>
           swe_calc_ut env (julian_day env (r_utcTime r)) b = CalcOk lon lat spd \<Longrightarrow>
           map_of (positions doc) n = Some (positionData_of ih (houses doc) lon lat spd)"
proof -
  define jd where "jd = julian_day env (r_utcTime r)"
  from assms obtain cd1 where
    hs: "house_step env jd (r_lat r) (r_lng r) ih hsys (new_chartData env r ins) = Inr cd1"
    and doc: "doc = (planets_loop env jd ih planets cd1)
           \<lparr>aspects := aspects (planets_loop env jd ih planets cd1)
                        @ calculate_aspects (positions (planets_loop env jd ih planets cd1))\<rparr>"
    unfolding assemble_chart_def Let_def jd_def by (auto split: sum.splits)
  note fr = house_step_frame [OF hs]
  have p0: "positions cd1 = []" and a0: "aspects cd1 = []"
    and m0: "meta cd1 = meta (new_chartData env r ins)"
    using fr by (simp_all add: new_chartData_def)
  have h: "houses doc = houses cd1" using doc by (simp add: planets_loop_frame)
  show "meta doc = meta (new_chartData env r ins)"
    using doc m0 by (simp add: planets_loop_frame)
  have "map fst (positions (planets_loop env jd ih planets cd1)) =
        map fst (positions cd1) @
        map fst (filter (\<lambda>(name, b). calc_ok (swe_calc_ut env jd b)) planets)"
    by (rule planets_loop_keys) (simp_all add: planets_distinct p0)
  then show "map fst (positions doc) =
           map fst (filter (\<lambda>(name, b). calc_ok (swe_calc_ut env (julian_day env (r_utcTime r)) b))
                      planets)"
    using doc p0 by (simp add: jd_def)
  show "aspects doc = calculate_aspects (positions doc)"
    using doc a0 by (simp add: planets_loop_frame)
  show "\<exists>asc midheaven cs.
           swe_houses env (julian_day env (r_utcTime r)) (r_lat r) (r_lng r) hsys =
             HousesOk asc midheaven cs
           \<and> houses doc = Some \<lparr>system = hsys, ascendant = asc, mc = midheaven,
                                  cusps = take 12 cs\<rparr>" if ih
    using fr that h by (simp add: jd_def)
  show "houses doc = None" if "\<not> ih"
    using fr that h by (simp add: new_chartData_def)
  show "\<exists>b lon lat spd. (n, b) \<in> set planets
             \<and> swe_calc_ut env (julian_day env (r_utcTime r)) b = CalcOk lon lat spd
             \<and> p = positionData_of ih (houses doc) lon lat spd"
    if "(n, p) \<in> set (positions doc)"
  proof -
    have "(n, p) \<in> set (positions (planets_loop env jd ih planets cd1))"
      using that doc by simp
    from planets_loop_member [OF this] show ?thesis
      using p0 h by (simp add: jd_def)
  qed
  show "map_of (positions doc) n = Some (positionData_of ih (houses doc) lon lat spd)"
    if "(n, b) \<in> set planets"
      "swe_calc_ut env (julian_day env (r_utcTime r)) b = CalcOk lon lat spd"
    using planets_loop_value [OF planets_distinct that(1), of env jd lon lat spd ih cd1]
      that(2) doc h by (simp add: jd_def)
qed

lemma calculateChart_success:
  assumes "calculateChart env y m d t loc ih_arg hs_arg = Inr doc"
  obtains r where
    "resolve_instant env y m d t loc = Inr r"
    "assemble_chart env r \<lparr>year = y, month = m, day = d, time = t, location = loc\<rparr>
       (case ih_arg of None \<Rightarrow> True | Some b \<Rightarrow> b)
       (case hs_arg of None \<Rightarrow> ''P'' | Some hsys \<Rightarrow> hsys) = Inr doc"
  using assms unfolding calculateChart_def Let_def
  by (auto split: sum.splits)

lemma calculateChart_total:
  assumes "resolve_instant env y m d t loc = Inr r"
    and "ih_arg = Some False \<or>
         (\<exists>asc midheaven cs. swe_houses env (julian_day env (r_utcTime r)) (r_lat r) (r_lng r)
            (case hs_arg of None \<Rightarrow> ''P'' | Some hsys \<Rightarrow> hsys) = HousesOk asc midheaven cs)"
  shows "\<exists>doc. calculateChart env y m d t loc ih_arg hs_arg = Inr doc"
  using assms
  by (auto simp add: calculateChart_def assemble_chart_def house_step_def Let_def
      split: option.splits)

lemma calculateChart_house_failure:
  assumes "resolve_instant env y m d t loc = Inr r"
    and "ih_arg \<noteq> Some False"
    and "swe_houses env (julian_day env (r_utcTime r)) (r_lat r) (r_lng r)
            (case hs_arg of None \<Rightarrow> ''P'' | Some hsys \<Rightarrow> hsys) = HousesError err"
  shows "calculateChart env y m d t loc ih_arg hs_arg =
           Inl (Error (''House calculation failed: '' @ err))"
  using assms
  by (auto simp add: calculateChart_def assemble_chart_def house_step_def Let_def
      split: option.splits)

lemma calculateChart_inputs:
  assumes "calculateChart env y m d t loc ih_arg hs_arg = Inr doc"
  shows "inputs (meta doc) = \<lparr>year = y, month = m, day = d, time = t, location = loc\<rparr>"
proof -
  from assms obtain r where
    "assemble_chart env r \<lparr>year = y, month = m, day = d, time = t, location = loc\<rparr>
       (case ih_arg of None \<Rightarrow> True | Some b \<Rightarrow> b)
       (case hs_arg of None \<Rightarrow> ''P'' | Some hsys \<Rightarrow> hsys) = Inr doc"
    by (rule calculateChart_success)
  from assemble_chart_success(1) [OF this] show ?thesis by (simp add: new_chartData_def)
qed

lemma demo_resolve:
  "resolve_instant demo_env y m d t loc =
     Inr \<lparr>r_lat = 5148 / 100, r_lng = 0, r_formattedLocation = ''Greenwich, London, UK'',
          r_utcTime = demo_dt\<rparr>"
  by (simp add: resolve_instant_def demo_env_def demo_dt_def)

lemma demo_houses:
  "swe_houses demo_env jd lat lng hsys = HousesOk 300 210 example_cusps"
  by (simp add: demo_env_def)

lemma demo_chart_exists:
  "\<exists>doc. calculateChart demo_env y m d t loc ih_arg hs_arg = Inr doc"
  by (rule calculateChart_total [OF demo_resolve]) (simp add: demo_houses)

lemma demo_sun:
  "swe_calc_ut demo_env jd SE_SUN = CalcOk (561 / 2) 0 1"
  by (simp add: demo_env_def)

lemma demo_ok_names:
  "map fst (filter (\<lambda>(name, b). calc_ok (swe_calc_ut demo_env jd b)) planets) =
     [''Sun'', ''Moon'', ''Mars'']"
  by (simp add: planets_def demo_env_def)

section \<open>Properties of the recalculation job\<close>

lemmas job_defs = ret_def lift_def bnd_def try_catch_def try_finally_def console_out_def
  getConnection_def release_if_conn_def query_update_def

lemma guarded_event_ok: "fst (guarded_event env ev s) = Inr ()"
  by (cases "event_body env ev s"; cases "fst (event_body env ev s)")
     (auto simp add: guarded_event_def try_catch_def console_out_def)

lemma guarded_event_caught:
  "event_body env ev s = (Inl e, s') \<Longrightarrow>
   guarded_event env ev s =
     (Inr (), s'\<lparr>console := console s' @ [ErrFailed (event_id ev) (message e)]\<rparr>)"
  by (simp add: guarded_event_def try_catch_def console_out_def)

lemma guarded_event_passed:
  "event_body env ev s = (Inr u, s') \<Longrightarrow> guarded_event env ev s = (Inr (), s')"
  by (simp add: guarded_event_def try_catch_def)

lemma for_events_step:
  "for_events env (ev # evs) s = for_events env evs (snd (guarded_event env ev s))"
proof -
  obtain s' where "guarded_event env ev s = (Inr (), s')"
    using guarded_event_ok [of env ev s] by (cases "guarded_event env ev s") auto
  then show ?thesis by (simp add: bnd_def)
qed

lemma for_events_ok: "fst (for_events env evs s) = Inr ()"
  by (induction evs arbitrary: s) (simp_all add: for_events_step ret_def del: for_events.simps(2))

lemma for_events_fold:
  "snd (for_events env evs s) = fold (\<lambda>ev st. snd (guarded_event env ev st)) evs s"
  by (induction evs arbitrary: s) (simp_all add: for_events_step ret_def del: for_events.simps(2))

lemma for_events_result:
  "for_events env evs s = (Inr (), fold (\<lambda>ev st. snd (guarded_event env ev st)) evs s)"
  using for_events_ok [of env evs s] for_events_fold [of env evs s]
  by (cases "for_events env evs s") simp

lemma job_ok: "fst (recalculateAllChartsOnStartup env s) = Inr ()"
  by (auto simp add: recalculateAllChartsOnStartup_def job_defs Let_def for_events_result
      split: prod.splits sum.splits option.splits)

lemma job_normal_run:
  assumes "pool_getConnection env = None" "conn_query_select env = Inr q" "events_of q \<noteq> []"
  shows "recalculateAllChartsOnStartup env s =
     (Inr (),
      (let s1 = s\<lparr>console := console s @ [LogStart], conn := True\<rparr>;
           s2 = s1\<lparr>console := console s1 @ [LogFound (length (events_of q))]\<rparr>;
           s3 = fold (\<lambda>ev st. snd (guarded_event env ev st)) (events_of q) s2;
           s4 = s3\<lparr>console := console s3 @ [LogFinished]\<rparr>
       in if conn s4 then s4\<lparr>released := released s4 + 1\<rparr> else s4))"
  using assms
  by (simp add: recalculateAllChartsOnStartup_def job_defs Let_def for_events_result)

lemma recover_inputs_updates:
  "db_updates (snd (recover_inputs env eid data s)) = db_updates s"
  by (auto simp add: recover_inputs_def job_defs Let_def split: sum.splits)

lemma recalc_with_inputs_skip:
  "inputs_missing i \<Longrightarrow>
   recalc_with_inputs env eid i s = (Inr (), s\<lparr>console := console s @ [WarnSkipping eid]\<rparr>)"
  by (simp add: recalc_with_inputs_def console_out_def)

lemma event_body_skip:
  assumes "parse_event_data env ev = Inr data"
    and "recover_inputs env (event_id ev) data s = (Inr i, s1)"
    and "inputs_missing i"
  shows "event_body env ev s =
           (Inr (), s1\<lparr>console := console s1 @ [WarnSkipping (event_id ev)]\<rparr>)"
    and "db_updates s1 = db_updates s"
proof -
  show "event_body env ev s =
           (Inr (), s1\<lparr>console := console s1 @ [WarnSkipping (event_id ev)]\<rparr>)"
    using assms by (simp add: event_body_def Let_def bnd_def lift_def recalc_with_inputs_skip)
  show "db_updates s1 = db_updates s"
    using recover_inputs_updates [of env "event_id ev" data s] assms(2) by simp
qed

lemma recalc_with_inputs_updates:
  assumes "recalc_with_inputs env eid i s = (r, s')"
  shows "db_updates s' = db_updates s
         \<or> (\<exists>doc. calculateChart env (property i ''year'') (property i ''month'')
                     (property i ''day'') (property i ''time'') (property i ''location'')
                     None None = Inr doc
                  \<and> db_updates s' = db_updates s @ [(eid, doc)])"
  using assms
  by (auto simp add: recalc_with_inputs_def job_defs split: if_splits sum.splits option.splits)

lemma event_body_updates:
  assumes "event_body env ev s = (r, s')"
  shows "db_updates s' = db_updates s
         \<or> (\<exists>i doc. calculateChart env (property i ''year'') (property i ''month'')
                     (property i ''day'') (property i ''time'') (property i ''location'')
                     None None = Inr doc
                  \<and> db_updates s' = db_updates s @ [(event_id ev, doc)])"
proof (cases "parse_event_data env ev")
  case (Inl e)
  then show ?thesis using assms by (simp add: event_body_def Let_def bnd_def lift_def)
next
  case (Inr data)
  obtain ri s1 where rec: "recover_inputs env (event_id ev) data s = (ri, s1)"
    by (cases "recover_inputs env (event_id ev) data s")
  have u1: "db_updates s1 = db_updates s"
    using recover_inputs_updates [of env "event_id ev" data s] rec by simp
  show ?thesis
  proof (cases ri)
    case (Inl e)
    then show ?thesis using assms Inr rec u1
      by (simp add: event_body_def Let_def bnd_def lift_def)
  next
    case inputs: (Inr i)
    then have "recalc_with_inputs env (event_id ev) i s1 = (r, s')"
      using assms Inr rec by (simp add: event_body_def Let_def bnd_def lift_def)
    from recalc_with_inputs_updates [OF this] show ?thesis using u1 by auto
  qed
qed

lemma guarded_event_updates:
  assumes "guarded_event env ev s = (r, s')"
  shows "db_updates s' = db_updates s
         \<or> (\<exists>i doc. calculateChart env (property i ''year'') (property i ''month'')
                     (property i ''day'') (property i ''time'') (property i ''location'')
                     None None = Inr doc
                  \<and> db_updates s' = db_updates s @ [(event_id ev, doc)])"
proof -
  obtain rb sb where b: "event_body env ev s = (rb, sb)" by (cases "event_body env ev s")
  have "db_updates s' = db_updates sb"
    using assms b by (cases rb) (auto simp add: guarded_event_def try_catch_def console_out_def)
  then show ?thesis using event_body_updates [OF b] by simp
qed

lemma default_chart_placidus:
  assumes "calculateChart env y m d t loc None None = Inr doc"
  shows "\<exists>h. houses doc = Some h \<and> system h = ''P''"
proof -
  from assms obtain r where
    "assemble_chart env r \<lparr>year = y, month = m, day = d, time = t, location = loc\<rparr>
       (case None of None \<Rightarrow> True | Some b \<Rightarrow> b)
       (case None of None \<Rightarrow> ''P'' | Some hsys \<Rightarrow> hsys) = Inr doc"
    by (rule calculateChart_success)
  then have "assemble_chart env r \<lparr>year = y, month = m, day = d, time = t, location = loc\<rparr>
       True ''P'' = Inr doc" by simp
  from assemble_chart_success(4) [OF this] show ?thesis by auto
qed

lemma fold_guarded_updates:
  "(eid, doc) \<in> set (db_updates (fold (\<lambda>ev st. snd (guarded_event env ev st)) evs s)) \<Longrightarrow>
   (eid, doc) \<in> set (db_updates s)
   \<or> (\<exists>ev i. ev \<in> set evs \<and> eid = event_id ev
         \<and> calculateChart env (property i ''year'') (property i ''month'')
              (property i ''day'') (property i ''time'') (property i ''location'')
              None None = Inr doc)"
proof (induction evs arbitrary: s)
  case Nil
  then show ?case by simp
next
  case (Cons ev evs)
  obtain r s1 where g: "guarded_event env ev s = (r, s1)" by (cases "guarded_event env ev s")
  have "(eid, doc) \<in> set (db_updates (fold (\<lambda>ev st. snd (guarded_event env ev st)) evs s1))"
    using Cons.prems g by simp
  from Cons.IH [OF this] show ?case
  proof
    assume m: "(eid, doc) \<in> set (db_updates s1)"
    from guarded_event_updates [OF g] show ?thesis
    proof
      assume "db_updates s1 = db_updates s"
      then show ?thesis using m by simp
    next
      assume "\<exists>i doc'. calculateChart env (property i ''year'') (property i ''month'')
                     (property i ''day'') (property i ''time'') (property i ''location'')
                     None None = Inr doc'
                  \<and> db_updates s1 = db_updates s @ [(event_id ev, doc')]"
      then obtain i doc' where c: "calculateChart env (property i ''year'') (property i ''month'')
                     (property i ''day'') (property i ''time'') (property i ''location'')
                     None None = Inr doc'"
        and u: "db_updates s1 = db_updates s @ [(event_id ev, doc')]" by blast
      from m u have "(eid, doc) \<in> set (db_updates s) \<or> (eid, doc) = (event_id ev, doc')"
        by auto
      then show ?thesis
      proof
        assume "(eid, doc) \<in> set (db_updates s)"
        then show ?thesis ..
      next
        assume "(eid, doc) = (event_id ev, doc')"
        then have "ev \<in> set (ev # evs) \<and> eid = event_id ev
         \<and> calculateChart env (property i ''year'') (property i ''month'')
              (property i ''day'') (property i ''time'') (property i ''location'')
              None None = Inr doc" using c by simp
        then show ?thesis by blast
      qed
    qed
  next
    assume "\<exists>ev i. ev \<in> set evs \<and> eid = event_id ev
         \<and> calculateChart env (property i ''year'') (property i ''month'')
              (property i ''day'') (property i ''time'') (property i ''location'')
              None None = Inr doc"
    then obtain ev' i where "ev' \<in> set (ev # evs) \<and> eid = event_id ev'
         \<and> calculateChart env (property i ''year'') (property i ''month'')
              (property i ''day'') (property i ''time'') (property i ''location'')
              None None = Inr doc" by auto
    then show ?thesis by blast
  qed
qed

lemma fold_guarded_keeps:
  "set (db_updates s) \<subseteq> set (db_updates (fold (\<lambda>ev st. snd (guarded_event env ev st)) evs s))"
proof (induction evs arbitrary: s)
  case Nil
  then show ?case by simp
next
  case (Cons ev evs)
  obtain r s1 where g: "guarded_event env ev s = (r, s1)" by (cases "guarded_event env ev s")
  have "set (db_updates s) \<subseteq> set (db_updates s1)"
    using guarded_event_updates [OF g] by auto
  moreover have "set (db_updates s1) \<subseteq>
      set (db_updates (fold (\<lambda>ev st. snd (guarded_event env ev st)) evs s1))"
    by (rule Cons.IH)
  ultimately show ?case using g by simp
qed

lemma job_updates_shape:
  "db_updates (snd (recalculateAllChartsOnStartup env s)) = db_updates s
   \<or> (\<exists>q st. conn_query_select env = Inr q \<and> db_updates st = db_updates s
        \<and> db_updates (snd (recalculateAllChartsOnStartup env s)) =
            db_updates (fold (\<lambda>ev st. snd (guarded_event env ev st)) (events_of q) st))"
proof (cases "pool_getConnection env")
  case (Some e)
  then show ?thesis
    by (simp add: recalculateAllChartsOnStartup_def job_defs Let_def)
next
  case None
  show ?thesis
  proof (cases "conn_query_select env")
    case (Inl e)
    then show ?thesis using None
      by (simp add: recalculateAllChartsOnStartup_def job_defs Let_def)
  next
    case (Inr q)
    show ?thesis
    proof (cases "events_of q = []")
      case True
      then show ?thesis using None Inr
        by (simp add: recalculateAllChartsOnStartup_def job_defs Let_def)
    next
      case False
      let ?s2 = "s\<lparr>conn := True,
                   console := console s @ [LogStart, LogFound (length (events_of q))]\<rparr>"
      have "db_updates (snd (recalculateAllChartsOnStartup env s)) =
            db_updates (fold (\<lambda>ev st. snd (guarded_event env ev st)) (events_of q) ?s2)"
        by (simp add: job_normal_run [OF None Inr False] Let_def)
      moreover have "db_updates ?s2 = db_updates s" by simp
      ultimately show ?thesis using Inr by blast
    qed
  qed
qed

lemma job_updates:
  assumes "(eid, doc) \<in> set (db_updates (snd (recalculateAllChartsOnStartup env s)))"
    and "(eid, doc) \<notin> set (db_updates s)"
  shows "\<exists>i. calculateChart env (property i ''year'') (property i ''month'')
              (property i ''day'') (property i ''time'') (property i ''location'')
              None None = Inr doc"
proof -
  from job_updates_shape [of env s] assms obtain q st where
    st: "db_updates st = db_updates s"
    and "db_updates (snd (recalculateAllChartsOnStartup env s)) =
            db_updates (fold (\<lambda>ev st. snd (guarded_event env ev st)) (events_of q) st)"
    by auto
  then have "(eid, doc) \<in>
      set (db_updates (fold (\<lambda>ev st. snd (guarded_event env ev st)) (events_of q) st))"
    using assms(1) by simp
  from fold_guarded_updates [OF this] show ?thesis using assms(2) st by auto
qed

lemma recover_inputs_present:
  assumes "get_prop data ''meta'' = Inr m" "truthy m" "truthy (property m ''inputs'')"
  shows "recover_inputs env eid data s = (Inr (property m ''inputs''), s)"
  using assms by (simp add: recover_inputs_def job_defs)

lemma recover_inputs_legacy:
  assumes "get_prop data ''meta'' = Inr m" "truthy m" "\<not> truthy (property m ''inputs'')"
    and "property m ''date'' = JStr d"
    and "recover_inputs env eid data s = (Inr i, s1)"
  shows "i = JUndefined
         \<or> i = reconstructed env (fromSQL env (js_replace d '' UTC'' [])) (property m ''location'')"
  using assms
  by (auto simp add: recover_inputs_def job_defs Let_def split: if_splits)

lemma inputs_missing_undefined: "inputs_missing JUndefined"
  by (simp add: inputs_missing_def)

lemma event_body_new_update:
  assumes "parse_event_data env ev = Inr data"
    and "event_body env ev s = (r, s')"
    and "(eid, doc) \<in> set (db_updates s')" "(eid, doc) \<notin> set (db_updates s)"
  shows "\<exists>i s1. recover_inputs env (event_id ev) data s = (Inr i, s1) \<and> \<not> inputs_missing i
           \<and> eid = event_id ev \<and> inputs (meta doc) = inputs_of i"
proof -
  obtain ri s1 where rec: "recover_inputs env (event_id ev) data s = (ri, s1)"
    by (cases "recover_inputs env (event_id ev) data s")
  have u1: "db_updates s1 = db_updates s"
    using recover_inputs_updates [of env "event_id ev" data s] rec by simp
  show ?thesis
  proof (cases ri)
    case (Inl e)
    then have "s' = s1" using assms(1,2) rec
      by (simp add: event_body_def Let_def bnd_def lift_def)
    then show ?thesis using assms(3,4) u1 by simp
  next
    case inputs: (Inr i)
    then have run: "recalc_with_inputs env (event_id ev) i s1 = (r, s')"
      using assms(1,2) rec by (simp add: event_body_def Let_def bnd_def lift_def)
    have nm: "\<not> inputs_missing i"
    proof
      assume "inputs_missing i"
      then have "db_updates s' = db_updates s1"
        using run by (auto simp add: recalc_with_inputs_skip)
      then show False using assms(3,4) u1 by simp
    qed
    from recalc_with_inputs_updates [OF run] assms(3,4) u1
    obtain doc' where c: "calculateChart env (property i ''year'') (property i ''month'')
                     (property i ''day'') (property i ''time'') (property i ''location'')
                     None None = Inr doc'"
      and u: "db_updates s' = db_updates s @ [(event_id ev, doc')]" by auto
    from u assms(3,4) have e: "eid = event_id ev" "doc = doc'" by auto
    have "inputs (meta doc') = inputs_of i"
      using calculateChart_inputs [OF c] by (simp add: inputs_of_def)
    then show ?thesis using rec inputs nm e by simp
  qed
qed

lemma inputs_of_reconstructed:
  "inputs_of (reconstructed env dt loc) =
     \<lparr>year = JNum (of_int (dt_year dt)), month = JNum (of_int (dt_month dt)),
      day = JNum (of_int (dt_day dt)), time = JStr (toFormat env dt ''HH:mm:ss''),
      location = loc\<rparr>"
  by (simp add: inputs_of_def reconstructed_def)

lemma demo_world [simp]:
  "fromSQL demo_env str =
     (if str = ''2000-01-01 12:00:00'' then demo_dt else demo_dt\<lparr>isValid := False\<rparr>)"
  "toFormat demo_env dt ''HH:mm:ss'' = ''12:00:00''"
  "conn_query_update demo_env eid doc = None"
  "JSON_parse demo_env str = Inl (SyntaxError ''Unexpected token n in JSON'')"
  "pool_getConnection demo_env = None"
  "conn_query_select demo_env = Inr (QueryArray demo_events)"
  by (simp_all add: demo_env_def)

lemma demo_date: "js_replace ''2000-01-01 12:00:00 UTC'' '' UTC'' [] = ''2000-01-01 12:00:00''"
  by simp

lemma demo_legacy_recover:
  "recover_inputs demo_env (JNum 1) legacy_doc s =
     (Inr (reconstructed demo_env demo_dt (JStr ''Greenwich, London, UK'')),
      s\<lparr>console := console s @
          [LogOldFormat (JNum 1),
           LogReconstructed (JNum 1)
             (reconstructed demo_env demo_dt (JStr ''Greenwich, London, UK''))]\<rparr>)"
  by (simp add: recover_inputs_def legacy_doc_def job_defs demo_date Let_def demo_dt_def)

lemma demo_legacy_run:
  assumes "calculateChart demo_env (JNum 2000) (JNum 1) (JNum 1) (JStr ''12:00:00'')
             (JStr ''Greenwich, London, UK'') None None = Inr doc"
  shows "db_updates (snd (event_body demo_env \<lparr>event_id = JNum 1, event_data = legacy_doc\<rparr> s)) =
           db_updates s @ [(JNum 1, doc)]"
proof -
  have p: "parse_event_data demo_env \<lparr>event_id = JNum 1, event_data = legacy_doc\<rparr> = Inr legacy_doc"
    by (simp add: parse_event_data_def legacy_doc_def)
  show ?thesis
    using assms
    by (simp add: event_body_def Let_def p demo_legacy_recover bnd_def lift_def
        recalc_with_inputs_def inputs_missing_def console_out_def query_update_def
        reconstructed_def demo_dt_def)
qed

lemma event_body_parse_error:
  "parse_event_data env ev = Inl e \<Longrightarrow> event_body env ev s = (Inl e, s)"
  by (simp add: event_body_def Let_def bnd_def lift_def)

lemma event_body_chart_error:
  assumes "parse_event_data env ev = Inr data"
    and "recover_inputs env (event_id ev) data s = (Inr i, s1)"
    and "\<not> inputs_missing i"
    and "calculateChart env (property i ''year'') (property i ''month'') (property i ''day'')
           (property i ''time'') (property i ''location'') None None = Inl e"
  shows "event_body env ev s =
           (Inl e, s1\<lparr>console := console s1 @ [LogRecalculating (event_id ev)]\<rparr>)"
  using assms
  by (simp add: event_body_def Let_def bnd_def lift_def recalc_with_inputs_def console_out_def)

lemma demo_guarded_1:
  assumes "calculateChart demo_env (JNum 2000) (JNum 1) (JNum 1) (JStr ''12:00:00'')
             (JStr ''Greenwich, London, UK'') None None = Inr doc"
  shows "guarded_event demo_env \<lparr>event_id = JNum 1, event_data = legacy_doc\<rparr> s =
     (Inr (), s\<lparr>console := console s @
                  [LogOldFormat (JNum 1),
                   LogReconstructed (JNum 1)
                     (reconstructed demo_env demo_dt (JStr ''Greenwich, London, UK'')),
                   LogRecalculating (JNum 1), LogSuccess (JNum 1)],
               db_updates := db_updates s @ [(JNum 1, doc)]\<rparr>)"
proof -
  have p: "parse_event_data demo_env \<lparr>event_id = JNum 1, event_data = legacy_doc\<rparr> = Inr legacy_doc"
    by (simp add: parse_event_data_def legacy_doc_def)
  have c: "calculateChart demo_env
       (property (reconstructed demo_env demo_dt (JStr ''Greenwich, London, UK'')) ''year'')
       (property (reconstructed demo_env demo_dt (JStr ''Greenwich, London, UK'')) ''month'')
       (property (reconstructed demo_env demo_dt (JStr ''Greenwich, London, UK'')) ''day'')
       (property (reconstructed demo_env demo_dt (JStr ''Greenwich, London, UK'')) ''time'')
       (property (reconstructed demo_env demo_dt (JStr ''Greenwich, London, UK'')) ''location'')
       None None = Inr doc"
    using assms by (simp add: reconstructed_def demo_dt_def)
  have nm: "\<not> inputs_missing (reconstructed demo_env demo_dt (JStr ''Greenwich, London, UK''))"
    by (simp add: inputs_missing_def reconstructed_def demo_dt_def)
  show ?thesis
    by (simp add: guarded_event_def try_catch_def event_body_def Let_def p demo_legacy_recover
        bnd_def lift_def recalc_with_inputs_def nm c console_out_def query_update_def)
qed

lemma demo_guarded_2:
  "guarded_event demo_env \<lparr>event_id = JNum 2, event_data = JStr ''{not json''\<rparr> s =
     (Inr (), s\<lparr>console := console s @ [ErrFailed (JNum 2) ''Unexpected token n in JSON'']\<rparr>)"
  by (simp add: guarded_event_def try_catch_def event_body_def Let_def parse_event_data_def
      bnd_def lift_def console_out_def)

lemma demo_guarded_3:
  assumes "calculateChart demo_env (JNum 2000) (JNum 1) (JNum 1) (JStr ''12:00'')
             (JStr ''Greenwich, UK'') None None = Inr doc"
  shows "guarded_event demo_env \<lparr>event_id = JNum 3, event_data = current_doc\<rparr> s =
     (Inr (), s\<lparr>console := console s @ [LogRecalculating (JNum 3), LogSuccess (JNum 3)],
               db_updates := db_updates s @ [(JNum 3, doc)]\<rparr>)"
  using assms
  by (simp add: guarded_event_def try_catch_def event_body_def Let_def parse_event_data_def
      current_doc_def recover_inputs_def bnd_def lift_def ret_def recalc_with_inputs_def
      inputs_missing_def console_out_def query_update_def)

lemma demo_guarded_4:
  "guarded_event demo_env \<lparr>event_id = JNum 4, event_data = JObj []\<rparr> s =
     (Inr (), s\<lparr>console := console s @ [WarnSkipping (JNum 4)]\<rparr>)"
  by (simp add: guarded_event_def try_catch_def event_body_def Let_def parse_event_data_def
      recover_inputs_def bnd_def lift_def ret_def recalc_with_inputs_def
      inputs_missing_def console_out_def)

lemma demo_fold:
  assumes "calculateChart demo_env (JNum 2000) (JNum 1) (JNum 1) (JStr ''12:00:00'')
             (JStr ''Greenwich, London, UK'') None None = Inr doc1"
    and "calculateChart demo_env (JNum 2000) (JNum 1) (JNum 1) (JStr ''12:00'')
             (JStr ''Greenwich, UK'') None None = Inr doc3"
  shows "fold (\<lambda>ev st. snd (guarded_event demo_env ev st)) demo_events s =
     s\<lparr>console := console s @
          [LogOldFormat (JNum 1),
           LogReconstructed (JNum 1)
             (reconstructed demo_env demo_dt (JStr ''Greenwich, London, UK'')),
           LogRecalculating (JNum 1), LogSuccess (JNum 1),
           ErrFailed (JNum 2) ''Unexpected token n in JSON'',
           LogRecalculating (JNum 3), LogSuccess (JNum 3),
           WarnSkipping (JNum 4)],
        db_updates := db_updates s @ [(JNum 1, doc1), (JNum 3, doc3)]\<rparr>"
  by (simp add: demo_events_def demo_guarded_1 [OF assms(1)] demo_guarded_2
      demo_guarded_3 [OF assms(2)] demo_guarded_4)

lemma demo_current_run:
  assumes "calculateChart demo_env (JNum 2000) (JNum 1) (JNum 1) (JStr ''12:00'')
             (JStr ''Greenwich, UK'') None None = Inr doc"
  shows "db_updates (snd (event_body demo_env \<lparr>event_id = JNum 3, event_data = current_doc\<rparr> s)) =
           db_updates s @ [(JNum 3, doc)]"
  using assms
  by (simp add: event_body_def Let_def parse_event_data_def
      current_doc_def recover_inputs_def bnd_def lift_def ret_def recalc_with_inputs_def
      inputs_missing_def console_out_def query_update_def)

lemma demo_job_updates:
  assumes "calculateChart demo_env (JNum 2000) (JNum 1) (JNum 1) (JStr ''12:00:00'')
             (JStr ''Greenwich, London, UK'') None None = Inr doc1"
    and "calculateChart demo_env (JNum 2000) (JNum 1) (JNum 1) (JStr ''12:00'')
             (JStr ''Greenwich, UK'') None None = Inr doc3"
  shows "db_updates (snd (recalculateAllChartsOnStartup demo_env initial_state)) =
           [(JNum 1, doc1), (JNum 3, doc3)]"
proof -
  have ne: "events_of (QueryArray demo_events) \<noteq> []" by (simp add: demo_events_def)
  show ?thesis
    by (simp add: job_normal_run [OF demo_world(5) demo_world(6) ne] Let_def
        demo_fold [OF assms] initial_state_def)
qed

section \<open>The claims\<close>

text \<open>
  C1.  The aspects of a chart are, pair by pair in the order \<open>i < j\<close> of the bodies
  that have a position, what the walk through the catalog finds for the separation of the
  two longitudes (\<open>|l1 - l2|\<close>, replaced by \<open>360 - sep\<close> beyond 180): the first of
  conjunction (0, orb 8), opposition (180, 8), trine (120, 8), square (90, 8),
  sextile (60, 6), quincunx (150, 3) whose angle is within its orb of the separation,
  recorded with that deviation as its orb; nothing for a pair that matches no kind.
  Every difference is the program's subtraction of doubles, rounding included.
  This holds of any position table with distinct names, and of the chart that
  \<open>calculateChart\<close> returns.
\<close>

theorem aspects_first_match_in_order:
  "(distinct (map fst ps) \<longrightarrow>
      map entry_tuple (calculate_aspects ps) =
        concat (map (pair_entry ps) (pair_indices (length ps))))
   \<and> (calculateChart env y m d t loc ih_arg hs_arg = Inr doc \<longrightarrow>
        map entry_tuple (aspects doc) =
          concat (map (pair_entry (positions doc)) (pair_indices (length (positions doc)))))"
proof (intro conjI impI)
  assume "distinct (map fst ps)"
  then show "map entry_tuple (calculate_aspects ps) =
        concat (map (pair_entry ps) (pair_indices (length ps)))"
    by (rule aspects_first_match)
next
  assume a: "calculateChart env y m d t loc ih_arg hs_arg = Inr doc"
  then obtain r where
    asm: "assemble_chart env r \<lparr>year = y, month = m, day = d, time = t, location = loc\<rparr>
       (case ih_arg of None \<Rightarrow> True | Some b \<Rightarrow> b)
       (case hs_arg of None \<Rightarrow> ''P'' | Some hsys \<Rightarrow> hsys) = Inr doc"
    by (rule calculateChart_success)
  have "distinct (map fst (filter (\<lambda>(name, b).
          calc_ok (swe_calc_ut env (julian_day env (r_utcTime r)) b)) planets))"
    using planets_distinct by (rule distinct_map_filter)
  then have "distinct (map fst (positions doc))"
    using assemble_chart_success(2) [OF asm] by simp
  then have "map entry_tuple (calculate_aspects (positions doc)) =
        concat (map (pair_entry (positions doc)) (pair_indices (length (positions doc))))"
    by (rule aspects_first_match)
  then show "map entry_tuple (aspects doc) =
          concat (map (pair_entry (positions doc)) (pair_indices (length (positions doc))))"
    using assemble_chart_success(3) [OF asm] by simp
qed

theorem aspects_first_match_in_order_witness:
  "distinct (map fst demo_positions)
   \<and> map entry_tuple (calculate_aspects demo_positions) =
       [(''Sun'', ''Moon'', ''opposition'', 0),
        (''Sun'', ''Mars'', ''square'', 1 / 2),
        (''Moon'', ''Mars'', ''square'', 1 / 2)]
   \<and> distinct (map fst edge_positions)
   \<and> map entry_tuple (calculate_aspects edge_positions) =
       [(''Sun'', ''Moon'', ''conjunction'', 8)]
   \<and> distinct (map fst decimal_positions)
   \<and> map entry_tuple (calculate_aspects decimal_positions) =
       [(''Sun'', ''Moon'', ''square'', 14073748835533 / 70368744177664)]"
proof -
  have d: "distinct (map fst demo_positions)" by (simp add: demo_positions_def)
  have "map entry_tuple (calculate_aspects demo_positions) =
          concat (map (pair_entry demo_positions) (pair_indices (length demo_positions)))"
    using aspects_first_match_in_order [of demo_positions] d by simp
  also have "\<dots> =
       [(''Sun'', ''Moon'', ''opposition'', 0),
        (''Sun'', ''Mars'', ''square'', 1 / 2),
        (''Moon'', ''Mars'', ''square'', 1 / 2)]"
    by code_simp
  finally have r1: "map entry_tuple (calculate_aspects demo_positions) =
       [(''Sun'', ''Moon'', ''opposition'', 0),
        (''Sun'', ''Mars'', ''square'', 1 / 2),
        (''Moon'', ''Mars'', ''square'', 1 / 2)]" .
  have e: "distinct (map fst edge_positions)" by (simp add: edge_positions_def)
  have "map entry_tuple (calculate_aspects edge_positions) =
          concat (map (pair_entry edge_positions) (pair_indices (length edge_positions)))"
    using aspects_first_match_in_order [of edge_positions] e by simp
  also have "\<dots> = [(''Sun'', ''Moon'', ''conjunction'', 8)]"
    by code_simp
  finally have r2: "map entry_tuple (calculate_aspects edge_positions) =
       [(''Sun'', ''Moon'', ''conjunction'', 8)]" .
  have f: "distinct (map fst decimal_positions)" by (simp add: decimal_positions_def)
  have "map entry_tuple (calculate_aspects decimal_positions) =
          concat (map (pair_entry decimal_positions) (pair_indices (length decimal_positions)))"
    using aspects_first_match_in_order [of decimal_positions] f by simp
  also have "\<dots> = [(''Sun'', ''Moon'', ''square'', 14073748835533 / 70368744177664)]"
    by code_simp
  finally have r3: "map entry_tuple (calculate_aspects decimal_positions) =
       [(''Sun'', ''Moon'', ''square'', 14073748835533 / 70368744177664)]" .
  from d r1 e r2 f r3 show ?thesis by simp
qed

text \<open>
  C2.  For a longitude \<open>L\<close> and an array of at least twelve cusps, \<open>getHousePlacement\<close>
  returns house \<open>h\<close> exactly when \<open>h\<close> is the first house of 1..12 whose arc holds \<open>L\<close>:
  the arc from \<open>cusps[h-1]\<close> to \<open>cusps[h mod 12]\<close>, half-open, which crosses 0 when the
  lower cusp is the larger one.  It returns null exactly when the array is absent, shorter
  than twelve, or no arc holds \<open>L\<close>.
\<close>

theorem houseOf_first_arc:
  "(getHousePlacement L houseCusps = Some h \<longleftrightarrow>
      (\<exists>cs. houseCusps = Some cs \<and> 12 \<le> length cs \<and> 1 \<le> h \<and> h \<le> 12 \<and> house_arc L cs h
            \<and> (\<forall>k. 1 \<le> k \<and> k < h \<longrightarrow> \<not> house_arc L cs k)))
   \<and> (getHousePlacement L houseCusps = None \<longleftrightarrow>
        houseCusps = None \<or> (\<exists>cs. houseCusps = Some cs \<and>
          (length cs < 12 \<or> (\<forall>k. 1 \<le> k \<and> k \<le> 12 \<longrightarrow> \<not> house_arc L cs k))))"
  by (rule getHousePlacement_arc)

theorem houseOf_first_arc_witness:
  "getHousePlacement 10 (Some example_cusps) = Some 3
   \<and> house_arc 10 example_cusps 3
   \<and> \<not> house_arc 10 example_cusps 2
   \<and> getHousePlacement 10 (Some [0, 30]) = None"
proof -
  have p: "getHousePlacement 10 (Some example_cusps) = Some 3"
    by (simp add: getHousePlacement_def example_cusps_def in_house_def)
  from p have "\<exists>cs. Some example_cusps = Some cs \<and> 12 \<le> length cs \<and> 1 \<le> (3::nat) \<and> (3::nat) \<le> 12
      \<and> house_arc 10 cs 3 \<and> (\<forall>k. 1 \<le> k \<and> k < 3 \<longrightarrow> \<not> house_arc 10 cs k)"
    by (rule houseOf_first_arc [THEN conjunct1, THEN iffD1])
  then have a: "house_arc 10 example_cusps 3"
    and b: "\<forall>k. 1 \<le> k \<and> k < 3 \<longrightarrow> \<not> house_arc 10 example_cusps k" by auto
  from b have "\<not> house_arc 10 example_cusps 2" by (elim allE [of _ 2]) simp
  moreover have "getHousePlacement 10 (Some [0, 30]) = None"
    by (rule houseOf_first_arc [THEN conjunct2, THEN iffD2]) simp
  ultimately show ?thesis using p a by simp
qed

text \<open>
  C3, as the specification states it: the sign of \<open>L + 360k\<close> is the sign of \<open>L\<close>.
  The classifier does not normalize its argument: 45 is in Taurus, and 405 is past the end
  of the sign table.
\<close>

theorem signOf_shift_counterexample:
  "sign (getZodiacSign (45 + 360 * of_int 1)) \<noteq> sign (getZodiacSign 45)"
proof -
  have "\<lfloor>(405::real) / 30\<rfloor> = 13" by (simp add: floor_eq_iff)
  moreover have "\<lfloor>(45::real) / 30\<rfloor> = 1" by (simp add: floor_eq_iff)
  ultimately show ?thesis by (simp add: getZodiacSign_def js_index_def signs_def)
qed

text \<open>
  C3, amended.  \<open>getZodiacSign 0\<close> is Aries at degree 0.  For \<open>L\<close> in [0,360) the sign
  is entry \<open>floor (L / 30)\<close> of the table and the degree is what is left of \<open>L\<close>; the
  argument is used as it comes, so \<open>L + 360k\<close> has no sign for any \<open>k\<close> other than 0.
\<close>

theorem signOf_unnormalized:
  "getZodiacSign 0 = \<lparr>sign = Some ''Aries'', degrees = 0\<rparr>
   \<and> (0 \<le> L \<and> L < 360 \<longrightarrow>
        sign (getZodiacSign L) = Some (signs ! nat \<lfloor>L / 30\<rfloor>)
        \<and> degrees (getZodiacSign L) = L - 30 * of_int \<lfloor>L / 30\<rfloor>
        \<and> (\<forall>k. k \<noteq> 0 \<longrightarrow> sign (getZodiacSign (L + 360 * of_int k)) = None))"
proof -
  have "getZodiacSign 0 = \<lparr>sign = Some ''Aries'', degrees = 0\<rparr>"
    by (simp add: getZodiacSign_def js_index_def signs_def js_rem_def js_trunc_def)
  then show ?thesis using zodiac_in_range [of L] zodiac_shifted [of L] by simp
qed

theorem signOf_unnormalized_witness:
  "(0::real) \<le> 45 \<and> (45::real) < 360
   \<and> sign (getZodiacSign 45) = Some ''Taurus''
   \<and> degrees (getZodiacSign 45) = 15
   \<and> sign (getZodiacSign (45 + 360 * of_int 2)) = None"
proof -
  have f: "\<lfloor>(45::real) / 30\<rfloor> = 1" by (simp add: floor_eq_iff)
  have t: "sign (getZodiacSign 45) = Some (signs ! nat \<lfloor>(45::real) / 30\<rfloor>)
        \<and> degrees (getZodiacSign 45) = 45 - 30 * of_int \<lfloor>(45::real) / 30\<rfloor>
        \<and> (\<forall>k. k \<noteq> 0 \<longrightarrow> sign (getZodiacSign (45 + 360 * of_int k)) = None)"
    using signOf_unnormalized [of 45] by simp
  then have "(2::int) \<noteq> 0 \<longrightarrow> sign (getZodiacSign (45 + 360 * of_int 2)) = None"
    by blast
  with t show ?thesis by (simp add: f signs_def)
qed

text \<open>
  C4.  A chart that \<open>calculateChart\<close> returns carries in \<open>meta.inputs\<close> the five
  values it was called with, unchanged.
\<close>

theorem computeChart_keeps_inputs:
  "calculateChart env y m d t loc ih_arg hs_arg = Inr doc \<Longrightarrow>
   inputs (meta doc) = \<lparr>year = y, month = m, day = d, time = t, location = loc\<rparr>"
  by (rule calculateChart_inputs)

theorem computeChart_keeps_inputs_witness:
  "\<exists>doc. calculateChart demo_env (JNum 2000) (JNum 1) (JNum 1) (JStr ''12:00'')
            (JStr ''Greenwich, UK'') None None = Inr doc
         \<and> inputs (meta doc) = demo_inputs"
proof -
  obtain doc where doc: "calculateChart demo_env (JNum 2000) (JNum 1) (JNum 1) (JStr ''12:00'')
            (JStr ''Greenwich, UK'') None None = Inr doc"
    using demo_chart_exists by blast
  from computeChart_keeps_inputs [OF doc] have "inputs (meta doc) = demo_inputs"
    by (simp add: demo_inputs_def)
  with doc show ?thesis by blast
qed

text \<open>
  C5.  Once place and time are resolved: when houses are requested and the house
  computation reports an error, the call fails with that error; otherwise the call
  succeeds, whatever the ephemeris reports for single bodies, and the positions of the
  chart are those of exactly the tracked bodies for which the ephemeris reported no error,
  in the order of the table, each with the longitude, latitude and speed reported.
\<close>

theorem bodies_optional_houses_fatal:
  assumes "resolve_instant env y m d t loc = Inr r"
  shows "(ih_arg \<noteq> Some False \<and>
          swe_houses env (julian_day env (r_utcTime r)) (r_lat r) (r_lng r)
            (case hs_arg of None \<Rightarrow> ''P'' | Some hsys \<Rightarrow> hsys) = HousesError err \<longrightarrow>
          calculateChart env y m d t loc ih_arg hs_arg =
            Inl (Error (''House calculation failed: '' @ err)))
       \<and> (ih_arg = Some False \<or>
          (\<exists>asc midheaven cs. swe_houses env (julian_day env (r_utcTime r)) (r_lat r) (r_lng r)
            (case hs_arg of None \<Rightarrow> ''P'' | Some hsys \<Rightarrow> hsys) = HousesOk asc midheaven cs) \<longrightarrow>
          (\<exists>doc. calculateChart env y m d t loc ih_arg hs_arg = Inr doc))
       \<and> (calculateChart env y m d t loc ih_arg hs_arg = Inr doc \<longrightarrow>
            map fst (positions doc) =
              map fst (filter (\<lambda>(name, b).
                calc_ok (swe_calc_ut env (julian_day env (r_utcTime r)) b)) planets)
            \<and> (\<forall>name b lon lat spd. (name, b) \<in> set planets \<and>
                  swe_calc_ut env (julian_day env (r_utcTime r)) b = CalcOk lon lat spd \<longrightarrow>
                  (\<exists>p. map_of (positions doc) name = Some p \<and> longitude p = lon
                       \<and> latitude p = lat \<and> speed p = spd)))"
proof (intro conjI impI allI)
  assume "ih_arg \<noteq> Some False \<and>
          swe_houses env (julian_day env (r_utcTime r)) (r_lat r) (r_lng r)
            (case hs_arg of None \<Rightarrow> ''P'' | Some hsys \<Rightarrow> hsys) = HousesError err"
  then show "calculateChart env y m d t loc ih_arg hs_arg =
            Inl (Error (''House calculation failed: '' @ err))"
    using calculateChart_house_failure [OF assms] by blast
next
  assume "ih_arg = Some False \<or>
          (\<exists>asc midheaven cs. swe_houses env (julian_day env (r_utcTime r)) (r_lat r) (r_lng r)
            (case hs_arg of None \<Rightarrow> ''P'' | Some hsys \<Rightarrow> hsys) = HousesOk asc midheaven cs)"
  then show "\<exists>doc. calculateChart env y m d t loc ih_arg hs_arg = Inr doc"
    by (rule calculateChart_total [OF assms])
next
  assume a: "calculateChart env y m d t loc ih_arg hs_arg = Inr doc"
  then obtain r' where r': "resolve_instant env y m d t loc = Inr r'"
    and asm: "assemble_chart env r' \<lparr>year = y, month = m, day = d, time = t, location = loc\<rparr>
       (case ih_arg of None \<Rightarrow> True | Some b \<Rightarrow> b)
       (case hs_arg of None \<Rightarrow> ''P'' | Some hsys \<Rightarrow> hsys) = Inr doc"
    by (rule calculateChart_success)
  have rr: "r' = r" using r' assms by simp
  show "map fst (positions doc) =
              map fst (filter (\<lambda>(name, b).
                calc_ok (swe_calc_ut env (julian_day env (r_utcTime r)) b)) planets)"
    using assemble_chart_success(2) [OF asm] rr by simp
  fix name b lon lat spd
  assume "(name, b) \<in> set planets \<and>
                  swe_calc_ut env (julian_day env (r_utcTime r)) b = CalcOk lon lat spd"
  then have "map_of (positions doc) name =
     Some (positionData_of (case ih_arg of None \<Rightarrow> True | Some b \<Rightarrow> b) (houses doc) lon lat spd)"
    using assemble_chart_success(7) [OF asm, of name b lon lat spd] rr by simp
  then show "\<exists>p. map_of (positions doc) name = Some p \<and> longitude p = lon
                       \<and> latitude p = lat \<and> speed p = spd"
    by (simp add: positionData_of_def Let_def split: option.splits)
qed

theorem bodies_optional_houses_fatal_witness:
  "(\<exists>doc. calculateChart demo_env (JNum 2000) (JNum 1) (JNum 1) (JStr ''12:00'')
            (JStr ''Greenwich, UK'') None None = Inr doc
          \<and> map fst (positions doc) = [''Sun'', ''Moon'', ''Mars''])
   \<and> calculateChart polar_env (JNum 2000) (JNum 1) (JNum 1) (JStr ''12:00'')
            (JStr ''Greenwich, UK'') None None =
         Inl (Error ''House calculation failed: no houses at this latitude'')"
proof -
  let ?r = "\<lparr>r_lat = 5148 / 100, r_lng = 0, r_formattedLocation = ''Greenwich, London, UK'',
          r_utcTime = demo_dt\<rparr>"
  have r: "resolve_instant demo_env (JNum 2000) (JNum 1) (JNum 1) (JStr ''12:00'')
            (JStr ''Greenwich, UK'') = Inr ?r"
    by (rule demo_resolve)
  have rp: "resolve_instant polar_env (JNum 2000) (JNum 1) (JNum 1) (JStr ''12:00'')
            (JStr ''Greenwich, UK'') = Inr ?r"
    by (simp add: resolve_instant_def polar_env_def demo_env_def demo_dt_def)
  have hp: "swe_houses polar_env (julian_day polar_env (r_utcTime ?r)) (r_lat ?r) (r_lng ?r)
              (case None of None \<Rightarrow> ''P'' | Some hsys \<Rightarrow> hsys) =
            HousesError ''no houses at this latitude''"
    by (simp add: polar_env_def)
  have fail: "calculateChart polar_env (JNum 2000) (JNum 1) (JNum 1) (JStr ''12:00'')
            (JStr ''Greenwich, UK'') None None =
         Inl (Error (''House calculation failed: '' @ ''no houses at this latitude''))"
    using bodies_optional_houses_fatal [OF rp, of None None "''no houses at this latitude''"] hp
    by simp
  have "\<exists>doc. calculateChart demo_env (JNum 2000) (JNum 1) (JNum 1) (JStr ''12:00'')
            (JStr ''Greenwich, UK'') None None = Inr doc"
    by (rule bodies_optional_houses_fatal [OF r, of None None, THEN conjunct2, THEN conjunct1,
          THEN mp]) (simp add: demo_houses)
  then obtain doc where doc: "calculateChart demo_env (JNum 2000) (JNum 1) (JNum 1)
            (JStr ''12:00'') (JStr ''Greenwich, UK'') None None = Inr doc" ..
  have "map fst (positions doc) =
          map fst (filter (\<lambda>(name, b).
            calc_ok (swe_calc_ut demo_env (julian_day demo_env (r_utcTime ?r)) b)) planets)"
    using bodies_optional_houses_fatal [OF r, of None None _ doc, THEN conjunct2,
        THEN conjunct2, THEN mp, OF doc] by (rule conjunct1)
  then have "map fst (positions doc) = [''Sun'', ''Moon'', ''Mars'']"
    by (simp only: demo_ok_names)
  with doc fail show ?thesis by auto
qed

text \<open>
  C6.  The job never ends with an exception, whatever the world does and whatever the table
  holds.  The loop over the records never throws and visits every record: its final state is
  the fold of the guarded step over all of them.  An exception thrown while one record is
  processed is caught and logged with its message; that is what happens when the stored
  string is not JSON, and when the chart computation fails (resolver or ephemeris) after the
  inputs were found.  A record whose inputs are missing is logged as skipped and writes
  nothing.  When the connection and the select succeed and there are records, the job logs
  the count, runs the loop, logs the end and releases the connection.
\<close>

theorem job_never_propagates:
  "fst (recalculateAllChartsOnStartup env s) = Inr ()
   \<and> for_events env evs s = (Inr (), fold (\<lambda>ev st. snd (guarded_event env ev st)) evs s)
   \<and> (event_body env ev s = (Inl e, s') \<longrightarrow>
        guarded_event env ev s =
          (Inr (), s'\<lparr>console := console s' @ [ErrFailed (event_id ev) (message e)]\<rparr>))
   \<and> (parse_event_data env ev = Inl e \<longrightarrow> event_body env ev s = (Inl e, s))
   \<and> (parse_event_data env ev = Inr data
        \<and> recover_inputs env (event_id ev) data s = (Inr i, s1) \<and> \<not> inputs_missing i
        \<and> calculateChart env (property i ''year'') (property i ''month'') (property i ''day'')
             (property i ''time'') (property i ''location'') None None = Inl e \<longrightarrow>
        event_body env ev s =
          (Inl e, s1\<lparr>console := console s1 @ [LogRecalculating (event_id ev)]\<rparr>))
   \<and> (parse_event_data env ev = Inr data
        \<and> recover_inputs env (event_id ev) data s = (Inr i, s1) \<and> inputs_missing i \<longrightarrow>
        guarded_event env ev s =
          (Inr (), s1\<lparr>console := console s1 @ [WarnSkipping (event_id ev)]\<rparr>)
        \<and> db_updates s1 = db_updates s)
   \<and> (pool_getConnection env = None \<and> conn_query_select env = Inr q \<and> events_of q \<noteq> [] \<longrightarrow>
        recalculateAllChartsOnStartup env s =
          (Inr (),
           (let s1 = s\<lparr>console := console s @ [LogStart], conn := True\<rparr>;
                s2 = s1\<lparr>console := console s1 @ [LogFound (length (events_of q))]\<rparr>;
                s3 = fold (\<lambda>ev st. snd (guarded_event env ev st)) (events_of q) s2;
                s4 = s3\<lparr>console := console s3 @ [LogFinished]\<rparr>
            in if conn s4 then s4\<lparr>released := released s4 + 1\<rparr> else s4)))"
proof (intro conjI impI)
  show "fst (recalculateAllChartsOnStartup env s) = Inr ()" by (rule job_ok)
  show "for_events env evs s = (Inr (), fold (\<lambda>ev st. snd (guarded_event env ev st)) evs s)"
    by (rule for_events_result)
  show "guarded_event env ev s =
          (Inr (), s'\<lparr>console := console s' @ [ErrFailed (event_id ev) (message e)]\<rparr>)"
    if "event_body env ev s = (Inl e, s')"
    using that by (rule guarded_event_caught)
  show "event_body env ev s = (Inl e, s)" if "parse_event_data env ev = Inl e"
    using that by (rule event_body_parse_error)
  show "event_body env ev s =
          (Inl e, s1\<lparr>console := console s1 @ [LogRecalculating (event_id ev)]\<rparr>)"
    if "parse_event_data env ev = Inr data
        \<and> recover_inputs env (event_id ev) data s = (Inr i, s1) \<and> \<not> inputs_missing i
        \<and> calculateChart env (property i ''year'') (property i ''month'') (property i ''day'')
             (property i ''time'') (property i ''location'') None None = Inl e"
    using that event_body_chart_error [of env ev data s i s1 e] by blast
  show "guarded_event env ev s =
          (Inr (), s1\<lparr>console := console s1 @ [WarnSkipping (event_id ev)]\<rparr>)"
    if "parse_event_data env ev = Inr data
        \<and> recover_inputs env (event_id ev) data s = (Inr i, s1) \<and> inputs_missing i"
    using that event_body_skip(1) [of env ev data s i s1] guarded_event_passed by blast
  show "db_updates s1 = db_updates s"
    if "parse_event_data env ev = Inr data
        \<and> recover_inputs env (event_id ev) data s = (Inr i, s1) \<and> inputs_missing i"
    using that event_body_skip(2) [of env ev data s i s1] by blast
  show "recalculateAllChartsOnStartup env s =
          (Inr (),
           (let s1 = s\<lparr>console := console s @ [LogStart], conn := True\<rparr>;
                s2 = s1\<lparr>console := console s1 @ [LogFound (length (events_of q))]\<rparr>;
                s3 = fold (\<lambda>ev st. snd (guarded_event env ev st)) (events_of q) s2;
                s4 = s3\<lparr>console := console s3 @ [LogFinished]\<rparr>
            in if conn s4 then s4\<lparr>released := released s4 + 1\<rparr> else s4))"
    if "pool_getConnection env = None \<and> conn_query_select env = Inr q \<and> events_of q \<noteq> []"
    using that job_normal_run [of env q s] by blast
qed

theorem job_never_propagates_witness:
  "\<exists>doc1 doc3.
     recalculateAllChartsOnStartup demo_env initial_state =
       (Inr (),
        \<lparr>console =
           [LogStart, LogFound 4,
            LogOldFormat (JNum 1),
            LogReconstructed (JNum 1)
              (reconstructed demo_env demo_dt (JStr ''Greenwich, London, UK'')),
            LogRecalculating (JNum 1), LogSuccess (JNum 1),
            ErrFailed (JNum 2) ''Unexpected token n in JSON'',
            LogRecalculating (JNum 3), LogSuccess (JNum 3),
            WarnSkipping (JNum 4),
            LogFinished],
         db_updates = [(JNum 1, doc1), (JNum 3, doc3)],
         conn = True, released = 1\<rparr>)"
proof -
  obtain doc1 where d1: "calculateChart demo_env (JNum 2000) (JNum 1) (JNum 1)
      (JStr ''12:00:00'') (JStr ''Greenwich, London, UK'') None None = Inr doc1"
    using demo_chart_exists by blast
  obtain doc3 where d3: "calculateChart demo_env (JNum 2000) (JNum 1) (JNum 1)
      (JStr ''12:00'') (JStr ''Greenwich, UK'') None None = Inr doc3"
    using demo_chart_exists by blast
  have pre: "pool_getConnection demo_env = None
      \<and> conn_query_select demo_env = Inr (QueryArray demo_events)
      \<and> events_of (QueryArray demo_events) \<noteq> []"
    by (simp add: demo_events_def)
  have len: "length demo_events = 4" by (simp add: demo_events_def)
  have "recalculateAllChartsOnStartup demo_env initial_state =
          (Inr (),
           (let s1 = initial_state\<lparr>console := console initial_state @ [LogStart], conn := True\<rparr>;
                s2 = s1\<lparr>console := console s1 @
                        [LogFound (length (events_of (QueryArray demo_events)))]\<rparr>;
                s3 = fold (\<lambda>ev st. snd (guarded_event demo_env ev st))
                       (events_of (QueryArray demo_events)) s2;
                s4 = s3\<lparr>console := console s3 @ [LogFinished]\<rparr>
            in if conn s4 then s4\<lparr>released := released s4 + 1\<rparr> else s4))"
    using job_never_propagates [of demo_env initial_state _ _ _ _ _ _ _ "QueryArray demo_events"]
      pre by blast
  then have "recalculateAllChartsOnStartup demo_env initial_state =
       (Inr (),
        \<lparr>console =
           [LogStart, LogFound 4,
            LogOldFormat (JNum 1),
            LogReconstructed (JNum 1)
              (reconstructed demo_env demo_dt (JStr ''Greenwich, London, UK'')),
            LogRecalculating (JNum 1), LogSuccess (JNum 1),
            ErrFailed (JNum 2) ''Unexpected token n in JSON'',
            LogRecalculating (JNum 3), LogSuccess (JNum 3),
            WarnSkipping (JNum 4),
            LogFinished],
         db_updates = [(JNum 1, doc1), (JNum 3, doc3)],
         conn = True, released = 1\<rparr>)"
    by (simp add: Let_def demo_fold [OF d1 d3] len initial_state_def)
  then show ?thesis by blast
qed

text \<open>
  C7.  For a record whose document has a \<open>meta\<close>: a chart written for it carries as
  \<open>meta.inputs\<close> the five fields of the stored \<open>meta.inputs\<close> when that is present;
  and, when it is not, the stored date is a string that parses after \<open>" UTC"\<close> is
  removed and a place is stored, the year, month and day of the parsed date, its time as
  \<open>HH:mm:ss\<close>, and exactly the stored \<open>meta.location\<close>.
\<close>

theorem recalc_recovers_inputs:
  assumes "parse_event_data env ev = Inr data"
    and "get_prop data ''meta'' = Inr m" and "truthy m"
    and "event_body env ev s = (r, s')"
    and "(eid, doc) \<in> set (db_updates s')" and "(eid, doc) \<notin> set (db_updates s)"
  shows "(truthy (property m ''inputs'') \<longrightarrow>
            inputs (meta doc) = inputs_of (property m ''inputs''))
       \<and> (\<not> truthy (property m ''inputs'') \<and> property m ''date'' = JStr d
            \<and> truthy (property m ''location'')
            \<and> isValid (fromSQL env (js_replace d '' UTC'' [])) \<longrightarrow>
            inputs (meta doc) =
              \<lparr>year = JNum (of_int (dt_year (fromSQL env (js_replace d '' UTC'' [])))),
               month = JNum (of_int (dt_month (fromSQL env (js_replace d '' UTC'' [])))),
               day = JNum (of_int (dt_day (fromSQL env (js_replace d '' UTC'' [])))),
               time = JStr (toFormat env (fromSQL env (js_replace d '' UTC'' [])) ''HH:mm:ss''),
               location = property m ''location''\<rparr>)"
proof -
  from event_body_new_update [OF assms(1,4,5,6)] obtain i s1 where
    rec: "recover_inputs env (event_id ev) data s = (Inr i, s1)"
    and nm: "\<not> inputs_missing i"
    and ins: "inputs (meta doc) = inputs_of i" by blast
  show ?thesis
  proof (intro conjI impI)
    assume "truthy (property m ''inputs'')"
    then have "recover_inputs env (event_id ev) data s = (Inr (property m ''inputs''), s)"
      using assms(2,3) by (intro recover_inputs_present)
    then have "i = property m ''inputs''" using rec by simp
    then show "inputs (meta doc) = inputs_of (property m ''inputs'')" using ins by simp
  next
    assume a: "\<not> truthy (property m ''inputs'') \<and> property m ''date'' = JStr d
            \<and> truthy (property m ''location'')
            \<and> isValid (fromSQL env (js_replace d '' UTC'' []))"
    then have "i = JUndefined
         \<or> i = reconstructed env (fromSQL env (js_replace d '' UTC'' [])) (property m ''location'')"
      using recover_inputs_legacy [OF assms(2,3) _ _ rec, of d] by blast
    then have "i = reconstructed env (fromSQL env (js_replace d '' UTC'' []))
                     (property m ''location'')"
      using nm inputs_missing_undefined by blast
    then show "inputs (meta doc) =
              \<lparr>year = JNum (of_int (dt_year (fromSQL env (js_replace d '' UTC'' [])))),
               month = JNum (of_int (dt_month (fromSQL env (js_replace d '' UTC'' [])))),
               day = JNum (of_int (dt_day (fromSQL env (js_replace d '' UTC'' [])))),
               time = JStr (toFormat env (fromSQL env (js_replace d '' UTC'' [])) ''HH:mm:ss''),
               location = property m ''location''\<rparr>"
      using ins by (simp only: inputs_of_reconstructed)
  qed
qed

theorem recalc_recovers_inputs_witness:
  "\<exists>doc1 doc3.
     db_updates (snd (event_body demo_env \<lparr>event_id = JNum 1, event_data = legacy_doc\<rparr>
                        initial_state)) = [(JNum 1, doc1)]
     \<and> inputs (meta doc1) =
         \<lparr>year = JNum 2000, month = JNum 1, day = JNum 1, time = JStr ''12:00:00'',
          location = JStr ''Greenwich, London, UK''\<rparr>
     \<and> db_updates (snd (event_body demo_env \<lparr>event_id = JNum 3, event_data = current_doc\<rparr>
                        initial_state)) = [(JNum 3, doc3)]
     \<and> inputs (meta doc3) = demo_inputs"
proof -
  let ?ev1 = "\<lparr>event_id = JNum 1, event_data = legacy_doc\<rparr>"
  let ?ev3 = "\<lparr>event_id = JNum 3, event_data = current_doc\<rparr>"
  let ?m1 = "JObj [(''date'', JStr ''2000-01-01 12:00:00 UTC''),
                   (''location'', JStr ''Greenwich, London, UK'')]"
  let ?i3 = "JObj [(''year'', JNum 2000), (''month'', JNum 1),
                   (''day'', JNum 1), (''time'', JStr ''12:00''),
                   (''location'', JStr ''Greenwich, UK'')]"
  let ?m3 = "JObj [(''date'', JStr ''2000-01-01 12:00:00 UTC''),
                   (''location'', JStr ''Greenwich, London, UK''),
                   (''inputs'', ?i3)]"
  obtain doc1 where d1: "calculateChart demo_env (JNum 2000) (JNum 1) (JNum 1)
      (JStr ''12:00:00'') (JStr ''Greenwich, London, UK'') None None = Inr doc1"
    using demo_chart_exists by blast
  obtain doc3 where d3: "calculateChart demo_env (JNum 2000) (JNum 1) (JNum 1)
      (JStr ''12:00'') (JStr ''Greenwich, UK'') None None = Inr doc3"
    using demo_chart_exists by blast
  have u1: "db_updates (snd (event_body demo_env ?ev1 initial_state)) = [(JNum 1, doc1)]"
    using demo_legacy_run [OF d1, of initial_state] by (simp add: initial_state_def)
  have u3: "db_updates (snd (event_body demo_env ?ev3 initial_state)) = [(JNum 3, doc3)]"
    using demo_current_run [OF d3, of initial_state] by (simp add: initial_state_def)
  have p1: "parse_event_data demo_env ?ev1 = Inr legacy_doc"
    by (simp add: parse_event_data_def legacy_doc_def)
  have p3: "parse_event_data demo_env ?ev3 = Inr current_doc"
    by (simp add: parse_event_data_def current_doc_def)
  have g1: "get_prop legacy_doc ''meta'' = Inr ?m1" by (simp add: legacy_doc_def)
  have g3: "get_prop current_doc ''meta'' = Inr ?m3" by (simp add: current_doc_def)
  have t1: "truthy ?m1" and t3: "truthy ?m3" by simp_all
  have e1: "event_body demo_env ?ev1 initial_state =
              (fst (event_body demo_env ?ev1 initial_state),
               snd (event_body demo_env ?ev1 initial_state))" by simp
  have e3: "event_body demo_env ?ev3 initial_state =
              (fst (event_body demo_env ?ev3 initial_state),
               snd (event_body demo_env ?ev3 initial_state))" by simp
  have in1: "(JNum 1, doc1) \<in> set (db_updates (snd (event_body demo_env ?ev1 initial_state)))"
    by (simp add: u1)
  have in3: "(JNum 3, doc3) \<in> set (db_updates (snd (event_body demo_env ?ev3 initial_state)))"
    by (simp add: u3)
  have out1: "(JNum 1, doc1) \<notin> set (db_updates initial_state)"
    and out3: "(JNum 3, doc3) \<notin> set (db_updates initial_state)"
    by (simp_all add: initial_state_def)
  have legacy: "\<not> truthy (property ?m1 ''inputs'')
      \<and> property ?m1 ''date'' = JStr ''2000-01-01 12:00:00 UTC''
      \<and> truthy (property ?m1 ''location'')
      \<and> isValid (fromSQL demo_env (js_replace ''2000-01-01 12:00:00 UTC'' '' UTC'' []))"
    by (simp add: demo_dt_def)
  have "inputs (meta doc1) =
      \<lparr>year = JNum (of_int (dt_year (fromSQL demo_env
                (js_replace ''2000-01-01 12:00:00 UTC'' '' UTC'' [])))),
       month = JNum (of_int (dt_month (fromSQL demo_env
                (js_replace ''2000-01-01 12:00:00 UTC'' '' UTC'' [])))),
       day = JNum (of_int (dt_day (fromSQL demo_env
                (js_replace ''2000-01-01 12:00:00 UTC'' '' UTC'' [])))),
       time = JStr (toFormat demo_env (fromSQL demo_env
                (js_replace ''2000-01-01 12:00:00 UTC'' '' UTC'' [])) ''HH:mm:ss''),
       location = property ?m1 ''location''\<rparr>"
    using recalc_recovers_inputs [OF p1 g1 t1 e1 in1 out1, of "''2000-01-01 12:00:00 UTC''"]
      legacy by blast
  then have r1: "inputs (meta doc1) =
         \<lparr>year = JNum 2000, month = JNum 1, day = JNum 1, time = JStr ''12:00:00'',
          location = JStr ''Greenwich, London, UK''\<rparr>"
    by (simp add: demo_dt_def)
  have "truthy (property ?m3 ''inputs'')" by simp
  then have "inputs (meta doc3) = inputs_of (property ?m3 ''inputs'')"
    using recalc_recovers_inputs [OF p3 g3 t3 e3 in3 out3] by blast
  then have r3: "inputs (meta doc3) = demo_inputs"
    by (simp add: inputs_of_def demo_inputs_def)
  from u1 r1 u3 r3 show ?thesis by blast
qed

text \<open>
  C8.  For twelve circularly ordered cusps and any longitude \<open>L\<close>, \<open>getHousePlacement\<close>
  returns one house of 1..12, the only one whose arc holds \<open>L\<close>; and each cusp lies in
  the house it opens: the cusp at index \<open>i - 1\<close> is placed in house \<open>i\<close>.
\<close>

theorem houseOf_circular:
  assumes "circularly_ordered cs"
  shows "(\<exists>h. 1 \<le> h \<and> h \<le> 12 \<and> getHousePlacement L (Some cs) = Some h
              \<and> (\<forall>h'. 1 \<le> h' \<and> h' \<le> 12 \<and> house_arc L cs h' \<longrightarrow> h' = h))
         \<and> (\<forall>i. 1 \<le> i \<and> i \<le> 12 \<longrightarrow> getHousePlacement (cs ! (i - 1)) (Some cs) = Some i)"
proof -
  from assms have co: "length cs = 12 \<and> (\<exists>k \<in> set [0..<12]. sorted_wrt (<) (rotate k cs))"
    by (simp only: circularly_ordered_def)
  note len = co [THEN conjunct1]
  from co [THEN conjunct2] obtain k where kin: "k \<in> set [0..<12]"
    and srt: "sorted_wrt (<) (rotate k cs)"
    by (rule bexE)
  from kin have k: "k < 12" by simp
  note placed = circular_placement [OF len k srt]
  have own: "getHousePlacement (cs ! (i - 1)) (Some cs) = Some i" if "1 \<le> i \<and> i \<le> 12" for i
  proof -
    have "i - 1 < 12" using that by arith
    then have "in_house (cs ! (i - 1)) cs (i - 1)"
      by (rule rotated_sorted_arcs(2) [OF len k srt])
    then have a: "house_arc (cs ! (i - 1)) cs i" using in_house_arc [of i] that by simp
    from placed [of "cs ! (i - 1)"] obtain h where
      h: "getHousePlacement (cs ! (i - 1)) (Some cs) = Some h"
        "\<forall>h'. 1 \<le> h' \<and> h' \<le> 12 \<and> house_arc (cs ! (i - 1)) cs h' \<longrightarrow> h' = h"
      by (elim exE conjE)
    from h(2) have "1 \<le> i \<and> i \<le> 12 \<and> house_arc (cs ! (i - 1)) cs i \<longrightarrow> i = h" ..
    moreover from that a have "1 \<le> i \<and> i \<le> 12 \<and> house_arc (cs ! (i - 1)) cs i"
      by blast
    ultimately have "i = h" by (rule mp)
    with h(1) show ?thesis by simp
  qed
  show ?thesis
  proof (intro conjI allI impI)
    show "\<exists>h. 1 \<le> h \<and> h \<le> 12 \<and> getHousePlacement L (Some cs) = Some h
              \<and> (\<forall>h'. 1 \<le> h' \<and> h' \<le> 12 \<and> house_arc L cs h' \<longrightarrow> h' = h)"
      by (rule placed)
  next
    fix i :: nat assume "1 \<le> i \<and> i \<le> 12"
    then show "getHousePlacement (cs ! (i - 1)) (Some cs) = Some i" by (rule own)
  qed
qed

theorem houseOf_circular_witness:
  "circularly_ordered example_cusps
   \<and> getHousePlacement 10 (Some example_cusps) = Some 3
   \<and> getHousePlacement (example_cusps ! (1 - 1)) (Some example_cusps) = Some 1"
proof -
  have c: "circularly_ordered example_cusps"
    unfolding circularly_ordered_def example_cusps_def by code_simp
  have p: "getHousePlacement 10 (Some example_cusps) = Some 3"
    by (simp add: getHousePlacement_def example_cusps_def in_house_def)
  have "\<forall>i. 1 \<le> i \<and> i \<le> 12 \<longrightarrow>
          getHousePlacement (example_cusps ! (i - 1)) (Some example_cusps) = Some i"
    using houseOf_circular [OF c, of 10] by (rule conjunct2)
  then have "1 \<le> (1::nat) \<and> (1::nat) \<le> 12 \<longrightarrow>
          getHousePlacement (example_cusps ! (1 - 1)) (Some example_cusps) = Some 1"
    by (rule spec)
  then have "getHousePlacement (example_cusps ! (1 - 1)) (Some example_cusps) = Some 1"
    by simp
  with c p show ?thesis by simp
qed

text \<open>
  C9.  Every position of a returned chart whose longitude \<open>L\<close> is in [0,360) has
  \<open>sign_degrees = L - 30 * floor (L / 30)\<close>, which lies in [0,30), and the sign at index
  \<open>floor (L / 30)\<close> of the table of twelve names that starts with Aries.  The aspect of a
  pair of longitudes does not depend on their order.
\<close>

theorem positions_sign_table_and_symmetry:
  "(calculateChart env y m d t loc ih_arg hs_arg = Inr doc \<and> (name, p) \<in> set (positions doc)
      \<and> 0 \<le> longitude p \<and> longitude p < 360 \<longrightarrow>
      sign_degrees p = longitude p - 30 * of_int \<lfloor>longitude p / 30\<rfloor>
      \<and> 0 \<le> sign_degrees p \<and> sign_degrees p < 30
      \<and> pos_sign p = Some (signs ! nat \<lfloor>longitude p / 30\<rfloor>)
      \<and> nat \<lfloor>longitude p / 30\<rfloor> < length signs)
   \<and> length signs = 12 \<and> signs ! 0 = ''Aries''
   \<and> detect longitude1 longitude2 = detect longitude2 longitude1"
proof (intro conjI impI)
  assume a: "calculateChart env y m d t loc ih_arg hs_arg = Inr doc \<and> (name, p) \<in> set (positions doc)
      \<and> 0 \<le> longitude p \<and> longitude p < 360"
  then obtain r where
    asm: "assemble_chart env r \<lparr>year = y, month = m, day = d, time = t, location = loc\<rparr>
       (case ih_arg of None \<Rightarrow> True | Some b \<Rightarrow> b)
       (case hs_arg of None \<Rightarrow> ''P'' | Some hsys \<Rightarrow> hsys) = Inr doc"
    using calculateChart_success [of env y m d t loc ih_arg hs_arg doc] by blast
  from a have "(name, p) \<in> set (positions doc)" by simp
  from assemble_chart_success(6) [OF asm this] obtain lon lat spd where
    p: "p = positionData_of (case ih_arg of None \<Rightarrow> True | Some b \<Rightarrow> b) (houses doc) lon lat spd"
    by blast
  have lon: "longitude p = lon" and sg: "pos_sign p = sign (getZodiacSign lon)"
    and dg: "sign_degrees p = degrees (getZodiacSign lon)"
    unfolding p by (simp_all add: positionData_of_def Let_def split: option.splits)
  have range: "0 \<le> lon" "lon < 360" using a lon by simp_all
  note z = zodiac_in_range [OF range]
  show "sign_degrees p = longitude p - 30 * of_int \<lfloor>longitude p / 30\<rfloor>"
    using z dg lon by simp
  show "0 \<le> sign_degrees p" using z dg zodiac_degrees_range [of lon] by simp
  show "sign_degrees p < 30" using z dg zodiac_degrees_range [of lon] by simp
  show "pos_sign p = Some (signs ! nat \<lfloor>longitude p / 30\<rfloor>)" using z sg lon by simp
  have "nat \<lfloor>lon / 30\<rfloor> < 12" using zodiac_index_range [OF range] by linarith
  moreover have "length signs = 12" by (simp add: signs_def)
  ultimately show "nat \<lfloor>longitude p / 30\<rfloor> < length signs"
    using lon by (simp only:)
next
  show "length signs = 12" by (simp add: signs_def)
  show "signs ! 0 = ''Aries''" by (simp add: signs_def)
  show "detect longitude1 longitude2 = detect longitude2 longitude1" by (rule detect_sym)
qed

theorem positions_sign_table_and_symmetry_witness:
  "\<exists>doc p. calculateChart demo_env (JNum 2000) (JNum 1) (JNum 1) (JStr ''12:00'')
            (JStr ''Greenwich, UK'') None None = Inr doc
     \<and> (''Sun'', p) \<in> set (positions doc) \<and> longitude p = 561 / 2
     \<and> pos_sign p = Some ''Capricorn'' \<and> sign_degrees p = 21 / 2"
proof -
  obtain doc where doc: "calculateChart demo_env (JNum 2000) (JNum 1) (JNum 1) (JStr ''12:00'')
            (JStr ''Greenwich, UK'') None None = Inr doc"
    using demo_chart_exists by blast
  then obtain r where
    asm: "assemble_chart demo_env r \<lparr>year = JNum 2000, month = JNum 1, day = JNum 1,
            time = JStr ''12:00'', location = JStr ''Greenwich, UK''\<rparr>
       (case None of None \<Rightarrow> True | Some b \<Rightarrow> b)
       (case None of None \<Rightarrow> ''P'' | Some hsys \<Rightarrow> hsys) = Inr doc"
    by (rule calculateChart_success)
  have "(''Sun'', SE_SUN) \<in> set planets" by (simp add: planets_def)
  from assemble_chart_success(7) [OF asm this demo_sun]
  obtain p where p: "map_of (positions doc) ''Sun'' = Some p" and l: "longitude p = 561 / 2"
    by (simp add: positionData_of_def Let_def split: option.splits)
  from p have mem: "(''Sun'', p) \<in> set (positions doc)" by (rule map_of_SomeD)
  have f: "\<lfloor>(561 / 2 :: real) / 30\<rfloor> = 9" by (simp add: floor_eq_iff)
  have rng: "0 \<le> longitude p \<and> longitude p < 360" by (simp add: l)
  have "sign_degrees p = longitude p - 30 * of_int \<lfloor>longitude p / 30\<rfloor>
      \<and> 0 \<le> sign_degrees p \<and> sign_degrees p < 30
      \<and> pos_sign p = Some (signs ! nat \<lfloor>longitude p / 30\<rfloor>)
      \<and> nat \<lfloor>longitude p / 30\<rfloor> < length signs"
    by (rule positions_sign_table_and_symmetry [of demo_env "JNum 2000" "JNum 1" "JNum 1"
        "JStr ''12:00''" "JStr ''Greenwich, UK''" None None doc "''Sun''" p,
        THEN conjunct1, THEN mp]) (intro conjI doc mem rng [THEN conjunct1] rng [THEN conjunct2])
  then have "sign_degrees p = 561 / 2 - 30 * of_int \<lfloor>(561 / 2 :: real) / 30\<rfloor>
      \<and> pos_sign p = Some (signs ! nat \<lfloor>(561 / 2 :: real) / 30\<rfloor>)"
    by (simp only: l)
  then have "pos_sign p = Some ''Capricorn'' \<and> sign_degrees p = 21 / 2"
    by (simp add: f signs_def)
  with doc mem l show ?thesis by blast
qed

text \<open>
  C10.  Every chart the job writes is the result of \<open>calculateChart\<close> called without
  its two optional arguments, so it has houses, of system \<open>"P"\<close>, whatever the stored
  document held.
\<close>

theorem recalculated_charts_default_houses:
  assumes "(eid, doc) \<in> set (db_updates (snd (recalculateAllChartsOnStartup env s)))"
    and "(eid, doc) \<notin> set (db_updates s)"
  shows "(\<exists>i. calculateChart env (property i ''year'') (property i ''month'')
              (property i ''day'') (property i ''time'') (property i ''location'')
              None None = Inr doc)
       \<and> (\<exists>h. houses doc = Some h \<and> system h = ''P'')"
proof -
  from job_updates [OF assms] obtain i where
    c: "calculateChart env (property i ''year'') (property i ''month'')
              (property i ''day'') (property i ''time'') (property i ''location'')
              None None = Inr doc" by blast
  from default_chart_placidus [OF c] c show ?thesis by blast
qed

theorem recalculated_charts_default_houses_witness:
  "\<exists>doc h. (JNum 1, doc) \<in>
        set (db_updates (snd (recalculateAllChartsOnStartup demo_env initial_state)))
     \<and> property legacy_doc ''houses'' = JNull
     \<and> houses doc = Some h \<and> system h = ''P''"
proof -
  obtain doc1 where d1: "calculateChart demo_env (JNum 2000) (JNum 1) (JNum 1)
      (JStr ''12:00:00'') (JStr ''Greenwich, London, UK'') None None = Inr doc1"
    using demo_chart_exists by blast
  obtain doc3 where d3: "calculateChart demo_env (JNum 2000) (JNum 1) (JNum 1)
      (JStr ''12:00'') (JStr ''Greenwich, UK'') None None = Inr doc3"
    using demo_chart_exists by blast
  have mem: "(JNum 1, doc1) \<in>
        set (db_updates (snd (recalculateAllChartsOnStartup demo_env initial_state)))"
    by (simp add: demo_job_updates [OF d1 d3])
  have new: "(JNum 1, doc1) \<notin> set (db_updates initial_state)"
    by (simp add: initial_state_def)
  from recalculated_charts_default_houses [OF mem new]
  obtain h where "houses doc1 = Some h \<and> system h = ''P''" by blast
  moreover have "property legacy_doc ''houses'' = JNull" by (simp add: legacy_doc_def)
  ultimately show ?thesis using mem by blast
qed

end
